theory Spec2Isabelle
  imports Main
begin

section \<open>Python values and exceptions\<close>

text \<open>
  The values the handlers store and compare are strings and numbers: identifiers of
  customers and vendors, the fields of a book, prices. They are compared with
  \<^verbatim>\<open>==\<close> and \<^verbatim>\<open>!=\<close> only, so a number is represented by an integer.

  The three prototypes raise \<^verbatim>\<open>SecurityException\<close> themselves (a plain subclass of
  \<^verbatim>\<open>Exception\<close>, declared once in each module, carrying its message) and the
  interpreter raises \<^verbatim>\<open>KeyError\<close> on a missing dict key and \<^verbatim>\<open>IndexError\<close> on
  \<^verbatim>\<open>list(s)[0]\<close> of an empty set. A function that can raise returns
  \<open>py_error + 'a\<close>, with \<open>Inl\<close> for the exception.
\<close>

datatype pyval = Str string | Num int

datatype py_error = SecurityException string | KeyError pyval | IndexError

text \<open>
  A dict with string keys, and \<^verbatim>\<open>d[k]\<close>, which raises \<^verbatim>\<open>KeyError(k)\<close> on a missing key.
\<close>

type_synonym pydict = "string \<rightharpoonup> pyval"

definition getitem :: "pydict \<Rightarrow> string \<Rightarrow> py_error + pyval" where
  "getitem d k = (case d k of None \<Rightarrow> Inl (KeyError (Str k)) | Some v \<Rightarrow> Inr v)"

text \<open>
  \<^verbatim>\<open>str(n)\<close> of a Python int, as the f-strings of the messages print it.
\<close>

definition digit_char :: "nat \<Rightarrow> char" where
  "digit_char d = ''0123456789'' ! d"

fun str_nat :: "nat \<Rightarrow> string" where
  "str_nat n = (if n < 10 then [digit_char n] else str_nat (n div 10) @ [digit_char (n mod 10)])"

declare str_nat.simps [simp del]

definition str_int :: "int \<Rightarrow> string" where
  "str_int i = (if i < 0 then CHR ''-'' # str_nat (nat (- i)) else str_nat (nat i))"

section \<open>Decentralized labels (bookmarket\_platform.py)\<close>

text \<open>
  \<^verbatim>\<open>class Principal\<close> defines neither \<^verbatim>\<open>__eq__\<close> nor \<^verbatim>\<open>__hash__\<close>, so Python
  compares and hashes principals by object identity. \<open>oid\<close> is that identity;
  \<open>name\<close> is the field \<^verbatim>\<open>self.name\<close>, which \<^verbatim>\<open>__str__\<close> returns.
\<close>

datatype Principal = Principal (oid: nat) (name: string)

text \<open>
  \<^verbatim>\<open>SecurityLabel\<close>: two Python sets of principals. A missing constructor argument
  (\<^verbatim>\<open>None\<close>) becomes the empty set.
\<close>

record SecurityLabel =
  owners :: "Principal set"
  readers :: "Principal set"

definition SecurityLabel_init :: "Principal set option \<Rightarrow> Principal set option \<Rightarrow> SecurityLabel" where
  "SecurityLabel_init os rs =
     \<lparr>owners = (case os of None \<Rightarrow> {} | Some s \<Rightarrow> s),
      readers = (case rs of None \<Rightarrow> {} | Some s \<Rightarrow> s)\<rparr>"

text \<open>
  \<^verbatim>\<open>return (label.owners.issubset(self.owners) and self.readers.issubset(label.readers))\<close>
\<close>

definition flows_to :: "SecurityLabel \<Rightarrow> SecurityLabel \<Rightarrow> bool" where
  "flows_to self label = (owners label \<subseteq> owners self \<and> readers self \<subseteq> readers label)"

text \<open>
  \<^verbatim>\<open>SecurityLabel(self.owners.intersection(label.owners), self.readers.union(label.readers))\<close>
\<close>

definition join :: "SecurityLabel \<Rightarrow> SecurityLabel \<Rightarrow> SecurityLabel" where
  "join self label =
     SecurityLabel_init (Some (owners self \<inter> owners label)) (Some (readers self \<union> readers label))"

text \<open>
  \<^verbatim>\<open>SecurityLabel(self.owners.union(label.owners), self.readers.intersection(label.readers))\<close>
\<close>

definition meet :: "SecurityLabel \<Rightarrow> SecurityLabel \<Rightarrow> SecurityLabel" where
  "meet self label =
     SecurityLabel_init (Some (owners self \<union> owners label)) (Some (readers self \<inter> readers label))"

text \<open>
  \<^verbatim>\<open>declassify(self, auth_principal, new_readers=None)\<close>. The method builds a new
  label from copies of both sets, overwrites the readers of the copy when
  \<^verbatim>\<open>new_readers\<close> is given, and assigns nothing to \<^verbatim>\<open>self\<close>. The model returns the
  outcome together with the receiver as the call leaves it.
\<close>

definition declassify ::
  "SecurityLabel \<Rightarrow> Principal \<Rightarrow> Principal set option \<Rightarrow> (py_error + SecurityLabel) \<times> SecurityLabel" where
  "declassify self auth_principal new_readers =
     (if auth_principal \<in> owners self then
        (let result = SecurityLabel_init (Some (owners self)) (Some (readers self));
             result = (case new_readers of
                         None \<Rightarrow> result
                       | Some rs \<Rightarrow> result\<lparr>readers := rs\<rparr>)
         in (Inr result, self))
      else
        (Inl (SecurityException
               (''Principal '' @ name auth_principal @ '' not authorized to declassify'')),
         self))"

section \<open>Linear clearance levels and labelled cells (denning\_and\_denning/bookmarket.py)\<close>

definition PUBLIC :: int where "PUBLIC = 0"
definition CUSTOMER :: int where "CUSTOMER = 1"
definition VENDOR :: int where "VENDOR = 2"
definition PLATFORM :: int where "PLATFORM = 3"

text \<open>\<^verbatim>\<open>return source_level <= target_level\<close>, on Python ints.\<close>

definition can_flow :: "int \<Rightarrow> int \<Rightarrow> bool" where
  "can_flow source_level target_level = (source_level \<le> target_level)"

text \<open>
  \<^verbatim>\<open>class SecureVariable\<close>: the fields \<^verbatim>\<open>value\<close> (here \<open>cell_value\<close>) and
  \<^verbatim>\<open>security_level\<close>.
\<close>

record 'a SecureVariable =
  cell_value :: 'a
  security_level :: int

text \<open>
  Both accessors are methods of a mutable object, so each returns its outcome and the
  cell as the call leaves it. \<^verbatim>\<open>get_value\<close> assigns to no field; \<^verbatim>\<open>set_value\<close>
  assigns \<^verbatim>\<open>self.value\<close> on the checked branch only.
\<close>

definition get_value :: "'a SecureVariable \<Rightarrow> int \<Rightarrow> (py_error + 'a) \<times> 'a SecureVariable" where
  "get_value self context_level =
     (if can_flow (security_level self) context_level then (Inr (cell_value self), self)
      else
        (Inl (SecurityException
               (''Security violation: Cannot access level '' @ str_int (security_level self)
                @ '' data in context '' @ str_int context_level)),
         self))"

definition set_value ::
  "'a SecureVariable \<Rightarrow> 'a \<Rightarrow> int \<Rightarrow> int \<Rightarrow> (py_error + unit) \<times> 'a SecureVariable" where
  "set_value self new_value source_level context_level =
     (if can_flow source_level (security_level self) \<and> can_flow context_level (security_level self)
      then (Inr (), self\<lparr>cell_value := new_value\<rparr>)
      else
        (Inl (SecurityException
               (''Security violation: Cannot assign level '' @ str_int source_level
                @ '' to level '' @ str_int (security_level self)
                @ '' in context '' @ str_int context_level)),
         self))"

section \<open>The platform store (bookmarket\_platform.py)\<close>

text \<open>
  The data dicts of customers, vendors, books and purchases are Python objects that
  the database holds by reference: \<^verbatim>\<open>add_book\<close> stores the very dict it is given, and
  \<^verbatim>\<open>handle_offer\<close> writes \<^verbatim>\<open>'vendor_id'\<close> into the dict of its caller before it
  stores it. So two records, or a record and a later argument, can be one object. A
  \<open>ref\<close> is the identity of such a dict; the contents are looked up in the dict heap
  \<open>dicts\<close> that is carried with the platform.
\<close>

type_synonym ref = nat

text \<open>
  \<^verbatim>\<open>class Database\<close>: four dicts and two counters. The entries are dicts with fixed
  keys, hence records: \<^verbatim>\<open>'data'\<close> (a reference), \<^verbatim>\<open>'label'\<close>, and
  \<^verbatim>\<open>'marketing_opt_in'\<close> for a customer, \<^verbatim>\<open>'status'\<close> for a book.
\<close>

record customer_entry =
  c_data :: ref
  c_label :: SecurityLabel
  marketing_opt_in :: bool

record vendor_entry =
  v_data :: ref
  v_label :: SecurityLabel

record book_entry =
  b_data :: ref
  b_label :: SecurityLabel
  status :: string

record purchase_entry =
  p_data :: ref
  p_label :: SecurityLabel

record Database =
  customers :: "pyval \<rightharpoonup> customer_entry"
  vendors :: "pyval \<rightharpoonup> vendor_entry"
  books :: "int \<rightharpoonup> book_entry"
  purchases :: "int \<rightharpoonup> purchase_entry"
  next_book_id :: int
  next_purchase_id :: int

definition Database_init :: Database where
  "Database_init =
     \<lparr>customers = Map.empty, vendors = Map.empty, books = Map.empty, purchases = Map.empty,
      next_book_id = 1, next_purchase_id = 1\<rparr>"

definition add_customer :: "Database \<Rightarrow> pyval \<Rightarrow> ref \<Rightarrow> SecurityLabel \<Rightarrow> Database" where
  "add_customer self customer_id customer_data label =
     self\<lparr>customers := (customers self)(customer_id \<mapsto>
             \<lparr>c_data = customer_data, c_label = label, marketing_opt_in = False\<rparr>)\<rparr>"

definition add_vendor :: "Database \<Rightarrow> pyval \<Rightarrow> ref \<Rightarrow> SecurityLabel \<Rightarrow> Database" where
  "add_vendor self vendor_id vendor_data label =
     self\<lparr>vendors := (vendors self)(vendor_id \<mapsto> \<lparr>v_data = vendor_data, v_label = label\<rparr>)\<rparr>"

text \<open>
  \<^verbatim>\<open>book_id = self.next_book_id; self.next_book_id += 1; self.books[book_id] = {...}; return book_id\<close>.
  Python ints do not overflow. The result is the key and the database after the call.
\<close>

definition add_book :: "Database \<Rightarrow> ref \<Rightarrow> SecurityLabel \<Rightarrow> int \<times> Database" where
  "add_book self book_data label =
     (let book_id = next_book_id self;
          self = self\<lparr>next_book_id := next_book_id self + 1\<rparr>;
          self = self\<lparr>books := (books self)(book_id \<mapsto>
                   \<lparr>b_data = book_data, b_label = label, status = ''available''\<rparr>)\<rparr>
      in (book_id, self))"

definition add_purchase :: "Database \<Rightarrow> ref \<Rightarrow> SecurityLabel \<Rightarrow> int \<times> Database" where
  "add_purchase self purchase_data label =
     (let purchase_id = next_purchase_id self;
          self = self\<lparr>next_purchase_id := next_purchase_id self + 1\<rparr>;
          self = self\<lparr>purchases := (purchases self)(purchase_id \<mapsto>
                   \<lparr>p_data = purchase_data, p_label = label\<rparr>)\<rparr>
      in (purchase_id, self))"

text \<open>
  The dicts the handlers of both marketplaces return. \<open>Failure m\<close> is
  \<^verbatim>\<open>{'success': False, 'message': m}\<close>; every other constructor is a dict with
  \<^verbatim>\<open>'success': True\<close> and the listed entries. These dicts, and the confirmations in
  them, are built for the caller and stored nowhere, so they are given by their
  contents.
\<close>

datatype response =
    Failure string
  | OfferAccepted string int
  | PurchaseSuccessful string int pydict pydict
  | PreferenceUpdated string
  | OfferCreated int
  | Purchased pydict pydict

fun success :: "response \<Rightarrow> bool" where
  "success (Failure m) = False"
| "success r = True"

text \<open>
  \<^verbatim>\<open>class BookMarketPlatform\<close>: the database and the marketplace principal, and with
  them the dict heap: \<open>dicts\<close> gives the contents of each dict object, \<open>next_ref\<close> is the
  identity the next new dict gets. A reference a caller passes denotes a dict that
  exists, one below \<open>next_ref\<close>.
\<close>

record BookMarketPlatform =
  db :: Database
  marketplace :: Principal
  dicts :: "ref \<Rightarrow> pydict"
  next_ref :: ref

text \<open>A dict display \<^verbatim>\<open>{...}\<close>: a new object with the given contents.\<close>

definition new_dict :: "BookMarketPlatform \<Rightarrow> pydict \<Rightarrow> ref \<times> BookMarketPlatform" where
  "new_dict self contents =
     (next_ref self,
      self\<lparr>dicts := (dicts self)(next_ref self := contents), next_ref := next_ref self + 1\<rparr>)"

text \<open>
  \<^verbatim>\<open>__init__\<close> creates the database and the marketplace principal and calls
  \<^verbatim>\<open>_setup_initial_data\<close>, which registers two customers and two vendors, each with a
  dict of its own and under a label owned by a principal created for it.
\<close>

definition BookMarketPlatform_init :: BookMarketPlatform where
  "BookMarketPlatform_init =
     (let self = \<lparr>db = Database_init, marketplace = Principal 0 ''Marketplace'',
                  dicts = (\<lambda>r. Map.empty), next_ref = 0\<rparr>;
          (customer1, self) = new_dict self
             [''name'' \<mapsto> Str ''Alice Smith'',
              ''address'' \<mapsto> Str ''123 Main St, Anytown'',
              ''email'' \<mapsto> Str ''alice@example.com''];
          (customer2, self) = new_dict self
             [''name'' \<mapsto> Str ''Bob Johnson'',
              ''address'' \<mapsto> Str ''456 Oak Ave, Othertown'',
              ''email'' \<mapsto> Str ''bob@example.com''];
          alice = Principal 1 ''Alice'';
          bob = Principal 2 ''Bob'';
          self = self\<lparr>db := add_customer (db self) (Str ''alice'') customer1
                   (SecurityLabel_init (Some {alice}) (Some {alice, marketplace self}))\<rparr>;
          self = self\<lparr>db := add_customer (db self) (Str ''bob'') customer2
                   (SecurityLabel_init (Some {bob}) (Some {bob, marketplace self}))\<rparr>;
          (vendor1, self) = new_dict self
             [''name'' \<mapsto> Str ''BookStore Inc'', ''email'' \<mapsto> Str ''sales@bookstore.com''];
          (vendor2, self) = new_dict self
             [''name'' \<mapsto> Str ''Rare Books Ltd'', ''email'' \<mapsto> Str ''info@rarebooks.com''];
          bookstore = Principal 3 ''BookStore'';
          rarebooks = Principal 4 ''RareBooks'';
          self = self\<lparr>db := add_vendor (db self) (Str ''bookstore'') vendor1
                   (SecurityLabel_init (Some {bookstore}) (Some {bookstore, marketplace self}))\<rparr>;
          self = self\<lparr>db := add_vendor (db self) (Str ''rarebooks'') vendor2
                   (SecurityLabel_init (Some {rarebooks}) (Some {rarebooks, marketplace self}))\<rparr>
      in self)"

text \<open>
  The handlers take \<^verbatim>\<open>list(label.owners)[0]\<close>: the first element of a set in its
  iteration order, which Python fixes by hashing and this model leaves open. It is the
  parameter \<open>first_of\<close>; on the empty set the expression raises \<^verbatim>\<open>IndexError\<close>.

  \<^verbatim>\<open>handle_offer(self, vendor_id, book_data)\<close>: \<^verbatim>\<open>book_data['vendor_id'] = vendor_id\<close>
  writes into the dict of the caller, and \<^verbatim>\<open>add_book\<close> stores that dict. A book
  stored earlier from the same dict sees the write.
\<close>

definition handle_offer ::
  "(Principal set \<Rightarrow> Principal) \<Rightarrow> BookMarketPlatform \<Rightarrow> pyval \<Rightarrow> ref
   \<Rightarrow> (py_error + response) \<times> BookMarketPlatform" where
  "handle_offer first_of self vendor_id book_data =
     (case vendors (db self) vendor_id of
        None \<Rightarrow> (Inr (Failure ''Vendor not found''), self)
      | Some vendor_info \<Rightarrow>
          let vendor_label = v_label vendor_info in
          if owners vendor_label = {} then (Inl IndexError, self)
          else
            let vendor_principal = first_of (owners vendor_label);
                book_label = SecurityLabel_init (Some {vendor_principal})
                               (Some {vendor_principal, marketplace self});
                self = self\<lparr>dicts := (dicts self)(book_data :=
                         (dicts self book_data)(''vendor_id'' \<mapsto> vendor_id))\<rparr>;
                (book_id, d) = add_book (db self) book_data book_label
            in (Inr (OfferAccepted ''Book offer accepted'' book_id), self\<lparr>db := d\<rparr>))"

text \<open>
  \<^verbatim>\<open>handle_purchase(self, customer_id, book_id, offered_price)\<close>. The four checks
  return a failure dict. The lookups that follow raise on a missing key or an empty
  owner set; those before \<^verbatim>\<open>self.db.books[book_id]['status'] = 'sold'\<close> leave the
  platform as it was, those after it (building the confirmations) leave the book sold
  and the purchase recorded. \<^verbatim>\<open>purchase_data\<close> is a new dict.
\<close>

definition handle_purchase ::
  "(Principal set \<Rightarrow> Principal) \<Rightarrow> BookMarketPlatform \<Rightarrow> pyval \<Rightarrow> int \<Rightarrow> pyval
   \<Rightarrow> (py_error + response) \<times> BookMarketPlatform" where
  "handle_purchase first_of self customer_id book_id offered_price =
     (case customers (db self) customer_id of
        None \<Rightarrow> (Inr (Failure ''Customer not found''), self)
      | Some customer_info \<Rightarrow>
     (case books (db self) book_id of
        None \<Rightarrow> (Inr (Failure ''Book not found''), self)
      | Some book_info \<Rightarrow>
     if status book_info \<noteq> ''available'' then (Inr (Failure ''Book is not available''), self)
     else
     (case getitem (dicts self (b_data book_info)) ''price'' of
        Inl e \<Rightarrow> (Inl e, self)
      | Inr book_price \<Rightarrow>
     if book_price \<noteq> offered_price then (Inr (Failure ''Price does not match''), self)
     else
     (case getitem (dicts self (b_data book_info)) ''vendor_id'' of
        Inl e \<Rightarrow> (Inl e, self)
      | Inr vendor_id \<Rightarrow>
     (case vendors (db self) vendor_id of
        None \<Rightarrow> (Inl (KeyError vendor_id), self)
      | Some vendor_info \<Rightarrow>
     if owners (c_label customer_info) = {} then (Inl IndexError, self)
     else if owners (v_label vendor_info) = {} then (Inl IndexError, self)
     else
       let customer_principal = first_of (owners (c_label customer_info));
           vendor_principal = first_of (owners (v_label vendor_info));
           self = self\<lparr>db := (db self)\<lparr>books :=
                    (books (db self))(book_id \<mapsto> book_info\<lparr>status := ''sold''\<rparr>)\<rparr>\<rparr>;
           (purchase_data, self) = new_dict self
              [''book_id'' \<mapsto> Num book_id,
               ''customer_id'' \<mapsto> customer_id,
               ''vendor_id'' \<mapsto> vendor_id,
               ''price'' \<mapsto> offered_price,
               ''timestamp'' \<mapsto> Str ''timestamp_placeholder''];
           purchase_label = SecurityLabel_init
                              (Some {customer_principal, vendor_principal, marketplace self})
                              (Some {customer_principal, vendor_principal, marketplace self});
           (purchase_id, d) = add_purchase (db self) purchase_data purchase_label;
           self = self\<lparr>db := d\<rparr>
       in
     (case getitem (dicts self (b_data book_info)) ''title'' of
        Inl e \<Rightarrow> (Inl e, self)
      | Inr book_title \<Rightarrow>
     (case getitem (dicts self (v_data vendor_info)) ''name'' of
        Inl e \<Rightarrow> (Inl e, self)
      | Inr vendor_name \<Rightarrow>
     (case getitem (dicts self (c_data customer_info)) ''address'' of
        Inl e \<Rightarrow> (Inl e, self)
      | Inr customer_address \<Rightarrow>
     (case getitem (dicts self (c_data customer_info)) ''name'' of
        Inl e \<Rightarrow> (Inl e, self)
      | Inr customer_name \<Rightarrow>
     (case (if marketing_opt_in customer_info then getitem (dicts self (b_data book_info)) ''author''
            else Inr (Str [])) of
        Inl e \<Rightarrow> (Inl e, self)
      | Inr book_author \<Rightarrow>
       let customer_confirmation = [''purchase_id'' \<mapsto> Num purchase_id,
                                    ''book_title'' \<mapsto> book_title,
                                    ''price'' \<mapsto> offered_price,
                                    ''vendor'' \<mapsto> vendor_name,
                                    ''status'' \<mapsto> Str ''Confirmed''];
           vendor_confirmation = [''purchase_id'' \<mapsto> Num purchase_id,
                                  ''book_title'' \<mapsto> book_title,
                                  ''price'' \<mapsto> offered_price,
                                  ''customer_name'' \<mapsto> customer_name,
                                  ''customer_address'' \<mapsto> customer_address,
                                  ''status'' \<mapsto> Str ''Confirmed - Please ship to customer'']
       in (Inr (PurchaseSuccessful ''Purchase successful'' purchase_id
                  customer_confirmation vendor_confirmation), self)))))))))))"

definition set_marketing_opt_in ::
  "BookMarketPlatform \<Rightarrow> pyval \<Rightarrow> bool \<Rightarrow> response \<times> BookMarketPlatform" where
  "set_marketing_opt_in self customer_id opt_in =
     (case customers (db self) customer_id of
        None \<Rightarrow> (Failure ''Customer not found'', self)
      | Some customer_info \<Rightarrow>
          (PreferenceUpdated (''Marketing preference updated: Opt-in = ''
                               @ (if opt_in then ''True'' else ''False'')),
           self\<lparr>db := (db self)\<lparr>customers := (customers (db self))(customer_id \<mapsto>
                           customer_info\<lparr>marketing_opt_in := opt_in\<rparr>)\<rparr>\<rparr>))"

text \<open>
  What a client does with a platform: it builds a dict, and it calls the platform and
  its database, passing dicts by reference. \<open>platform_run\<close> is the platform after a
  sequence of such steps, whatever each call returned or raised. \<^verbatim>\<open>handle_search\<close>
  assigns to nothing and is left out.
\<close>

datatype platform_call =
    NewDict pydict
  | AddCustomer pyval ref SecurityLabel
  | AddVendor pyval ref SecurityLabel
  | AddBook ref SecurityLabel
  | AddPurchase ref SecurityLabel
  | HandleOffer pyval ref
  | HandlePurchase pyval int pyval
  | SetMarketingOptIn pyval bool

fun platform_step ::
  "(Principal set \<Rightarrow> Principal) \<Rightarrow> platform_call \<Rightarrow> BookMarketPlatform \<Rightarrow> BookMarketPlatform" where
  "platform_step first_of (NewDict contents) s = snd (new_dict s contents)"
| "platform_step first_of (AddCustomer c cd l) s = s\<lparr>db := add_customer (db s) c cd l\<rparr>"
| "platform_step first_of (AddVendor v vd l) s = s\<lparr>db := add_vendor (db s) v vd l\<rparr>"
| "platform_step first_of (AddBook bd l) s = s\<lparr>db := snd (add_book (db s) bd l)\<rparr>"
| "platform_step first_of (AddPurchase pd l) s = s\<lparr>db := snd (add_purchase (db s) pd l)\<rparr>"
| "platform_step first_of (HandleOffer v bd) s = snd (handle_offer first_of s v bd)"
| "platform_step first_of (HandlePurchase c b p) s = snd (handle_purchase first_of s c b p)"
| "platform_step first_of (SetMarketingOptIn c b) s = snd (set_marketing_opt_in s c b)"

fun platform_run ::
  "(Principal set \<Rightarrow> Principal) \<Rightarrow> platform_call list \<Rightarrow> BookMarketPlatform \<Rightarrow> BookMarketPlatform" where
  "platform_run first_of [] s = s"
| "platform_run first_of (c # cs) s = platform_run first_of cs (platform_step first_of c s)"

section \<open>The plain marketplace (denning\_and\_denning/marketplace.py)\<close>

text \<open>
  \<^verbatim>\<open>class BookMarketplaceDB\<close>: four dicts, empty at first. Customers and vendors are
  dicts the client supplies (test.py assigns \<^verbatim>\<open>db.customers\<close> and \<^verbatim>\<open>db.vendors\<close>);
  an offer is the dict with ten fixed keys that \<^verbatim>\<open>offer_handler\<close> builds, a purchase the
  dict with four fixed keys that \<^verbatim>\<open>purchase_handler\<close> builds.
\<close>

record offer =
  o_title :: pyval
  o_author :: pyval
  o_year :: pyval
  o_edition :: pyval
  o_publisher :: pyval
  o_condition :: pyval
  o_description :: pyval
  o_price :: pyval
  o_vendor_id :: pyval
  available :: bool

record purchase =
  pu_offer_id :: int
  pu_customer_id :: pyval
  pu_timestamp :: string
  pu_price :: pyval

record BookMarketplaceDB =
  m_customers :: "pyval \<rightharpoonup> pydict"
  m_vendors :: "pyval \<rightharpoonup> pydict"
  book_offers :: "int \<rightharpoonup> offer"
  m_purchases :: "int \<rightharpoonup> purchase"

record BookMarketplace =
  m_db :: BookMarketplaceDB
  next_offer_id :: int
  m_next_purchase_id :: int

definition BookMarketplace_init :: BookMarketplace where
  "BookMarketplace_init =
     \<lparr>m_db = \<lparr>m_customers = Map.empty, m_vendors = Map.empty,
               book_offers = Map.empty, m_purchases = Map.empty\<rparr>,
      next_offer_id = 1, m_next_purchase_id = 1\<rparr>"

text \<open>
  \<^verbatim>\<open>offer_handler(self, vendor_id, book_info)\<close>. The counter is advanced before the
  offer dict is built, so a \<^verbatim>\<open>KeyError\<close> on a field missing from \<^verbatim>\<open>book_info\<close>
  leaves the counter advanced and no offer stored.
\<close>

definition offer_handler ::
  "BookMarketplace \<Rightarrow> pyval \<Rightarrow> pydict \<Rightarrow> (py_error + response) \<times> BookMarketplace" where
  "offer_handler self vendor_id book_info =
     (if vendor_id \<notin> dom (m_vendors (m_db self)) then (Inr (Failure ''Vendor not found''), self)
      else
        let offer_id = next_offer_id self;
            self = self\<lparr>next_offer_id := next_offer_id self + 1\<rparr>
        in
      (case getitem book_info ''title'' of Inl e \<Rightarrow> (Inl e, self) | Inr title \<Rightarrow>
      (case getitem book_info ''author'' of Inl e \<Rightarrow> (Inl e, self) | Inr author \<Rightarrow>
      (case getitem book_info ''year'' of Inl e \<Rightarrow> (Inl e, self) | Inr year \<Rightarrow>
      (case getitem book_info ''edition'' of Inl e \<Rightarrow> (Inl e, self) | Inr edition \<Rightarrow>
      (case getitem book_info ''publisher'' of Inl e \<Rightarrow> (Inl e, self) | Inr publisher \<Rightarrow>
      (case getitem book_info ''condition'' of Inl e \<Rightarrow> (Inl e, self) | Inr condition \<Rightarrow>
      (case getitem book_info ''description'' of Inl e \<Rightarrow> (Inl e, self) | Inr description \<Rightarrow>
      (case getitem book_info ''price'' of Inl e \<Rightarrow> (Inl e, self) | Inr price \<Rightarrow>
        let new_offer = \<lparr>o_title = title, o_author = author, o_year = year,
                         o_edition = edition, o_publisher = publisher,
                         o_condition = condition, o_description = description,
                         o_price = price, o_vendor_id = vendor_id, available = True\<rparr>;
            self = self\<lparr>m_db := (m_db self)\<lparr>book_offers :=
                     (book_offers (m_db self))(offer_id \<mapsto> new_offer)\<rparr>\<rparr>
        in (Inr (OfferCreated offer_id), self))))))))))"

text \<open>
  \<^verbatim>\<open>purchase_handler(self, customer_id, offer_id, price)\<close>. One check covers an absent
  offer and an unavailable one. The confirmations are built after the offer is marked
  and the purchase stored; a customer dict without \<^verbatim>\<open>"name"\<close> or \<^verbatim>\<open>"address"\<close>
  raises there.
\<close>

definition purchase_handler ::
  "BookMarketplace \<Rightarrow> pyval \<Rightarrow> int \<Rightarrow> pyval \<Rightarrow> (py_error + response) \<times> BookMarketplace" where
  "purchase_handler self customer_id offer_id price =
     (case m_customers (m_db self) customer_id of
        None \<Rightarrow> (Inr (Failure ''Customer not found''), self)
      | Some customer \<Rightarrow>
     (case book_offers (m_db self) offer_id of
        None \<Rightarrow> (Inr (Failure ''Book offer not available''), self)
      | Some the_offer \<Rightarrow>
     if \<not> available the_offer then (Inr (Failure ''Book offer not available''), self)
     else if o_price the_offer \<noteq> price then (Inr (Failure ''Price does not match''), self)
     else
       let self = self\<lparr>m_db := (m_db self)\<lparr>book_offers :=
                    (book_offers (m_db self))(offer_id \<mapsto> the_offer\<lparr>available := False\<rparr>)\<rparr>\<rparr>;
           vendor_id = o_vendor_id the_offer;
           purchase_id = m_next_purchase_id self;
           self = self\<lparr>m_next_purchase_id := m_next_purchase_id self + 1\<rparr>;
           self = self\<lparr>m_db := (m_db self)\<lparr>m_purchases :=
                    (m_purchases (m_db self))(purchase_id \<mapsto>
                       \<lparr>pu_offer_id = offer_id, pu_customer_id = customer_id,
                        pu_timestamp = ''2025-05-04 12:00:00'', pu_price = price\<rparr>)\<rparr>\<rparr>
       in
     (case getitem customer ''name'' of
        Inl e \<Rightarrow> (Inl e, self)
      | Inr customer_name \<Rightarrow>
     (case getitem customer ''address'' of
        Inl e \<Rightarrow> (Inl e, self)
      | Inr shipping_address \<Rightarrow>
       let vendor_confirmation = [''purchase_id'' \<mapsto> Num purchase_id,
                                  ''book_title'' \<mapsto> o_title the_offer,
                                  ''customer_name'' \<mapsto> customer_name,
                                  ''shipping_address'' \<mapsto> shipping_address,
                                  ''price'' \<mapsto> price];
           customer_confirmation = [''purchase_id'' \<mapsto> Num purchase_id,
                                    ''book_title'' \<mapsto> o_title the_offer,
                                    ''price'' \<mapsto> price]
       in (Inr (Purchased vendor_confirmation customer_confirmation), self)))))"

text \<open>
  A client's calls on a marketplace: the two assignments of test.py and the two
  handlers that assign to the store (\<^verbatim>\<open>search_handler\<close> and \<^verbatim>\<open>get_marketing_data\<close>
  only read it).
\<close>

datatype marketplace_call =
    SetCustomers "pyval \<rightharpoonup> pydict"
  | SetVendors "pyval \<rightharpoonup> pydict"
  | OfferHandler pyval pydict
  | PurchaseHandler pyval int pyval

fun marketplace_step :: "marketplace_call \<Rightarrow> BookMarketplace \<Rightarrow> BookMarketplace" where
  "marketplace_step (SetCustomers cs) s = s\<lparr>m_db := (m_db s)\<lparr>m_customers := cs\<rparr>\<rparr>"
| "marketplace_step (SetVendors vs) s = s\<lparr>m_db := (m_db s)\<lparr>m_vendors := vs\<rparr>\<rparr>"
| "marketplace_step (OfferHandler v bi) s = snd (offer_handler s v bi)"
| "marketplace_step (PurchaseHandler c k p) s = snd (purchase_handler s c k p)"

fun marketplace_run :: "marketplace_call list \<Rightarrow> BookMarketplace \<Rightarrow> BookMarketplace" where
  "marketplace_run [] s = s"
| "marketplace_run (c # cs) s = marketplace_run cs (marketplace_step c s)"

section \<open>Example data\<close>

text \<open>
  Inputs for the concrete instances below: a book as a vendor offers it to the
  platform, the eight fields \<^verbatim>\<open>offer_handler\<close> reads, and the customers and vendors
  test.py assigns to the plain marketplace. Where a handler is run on them, every
  owner set has one element, and \<^verbatim>\<open>list(s)[0]\<close> is \<open>the_elem\<close>. The dict a
  client builds first on the initial platform is object 4, after the four dicts of the
  initial data.
\<close>

definition example_book :: pydict where
  "example_book =
     [''title'' \<mapsto> Str ''Introduction to Information Flow Security'',
      ''author'' \<mapsto> Str ''A. C. Myers'',
      ''price'' \<mapsto> Num 30]"

definition example_book_info :: pydict where
  "example_book_info =
     [''title'' \<mapsto> Str ''Python Programming for Beginners'',
      ''author'' \<mapsto> Str ''Jane Doe'',
      ''year'' \<mapsto> Num 2024,
      ''edition'' \<mapsto> Str ''3rd'',
      ''publisher'' \<mapsto> Str ''Tech Books'',
      ''condition'' \<mapsto> Str ''new'',
      ''description'' \<mapsto> Str ''A comprehensive guide to Python programming'',
      ''price'' \<mapsto> Num 30]"

definition example_customers :: "pyval \<rightharpoonup> pydict" where
  "example_customers =
     [Num 1 \<mapsto> [''name'' \<mapsto> Str ''Alice Smith'', ''address'' \<mapsto> Str ''123 Main St, Copenhagen''],
      Num 2 \<mapsto> [''name'' \<mapsto> Str ''Bob Johnson'', ''address'' \<mapsto> Str ''456 Oak Ave, Copenhagen'']]"

definition example_vendors :: "pyval \<rightharpoonup> pydict" where
  "example_vendors = [Num 1 \<mapsto> [''name'' \<mapsto> Str ''Book Haven''],
                      Num 2 \<mapsto> [''name'' \<mapsto> Str ''Academic Press'']]"

text \<open>
  The platform after the vendor \<^verbatim>\<open>'bookstore'\<close> has built and offered the book, and after the
  customer \<^verbatim>\<open>'alice'\<close> has then bought it; the plain marketplace after vendor 1 has
  offered a book, and after customer 1 has then bought it.
\<close>

definition platform_offered :: BookMarketPlatform where
  "platform_offered =
     platform_run the_elem [NewDict example_book, HandleOffer (Str ''bookstore'') 4]
       BookMarketPlatform_init"

definition platform_sold :: BookMarketPlatform where
  "platform_sold =
     platform_run the_elem [HandlePurchase (Str ''alice'') 1 (Num 30)] platform_offered"

definition marketplace_offered :: BookMarketplace where
  "marketplace_offered =
     marketplace_run [SetCustomers example_customers, SetVendors example_vendors,
                      OfferHandler (Num 1) example_book_info] BookMarketplace_init"

definition marketplace_sold :: BookMarketplace where
  "marketplace_sold = marketplace_run [PurchaseHandler (Num 1) 1 (Num 30)] marketplace_offered"

section \<open>Invariant and extension order of the two stores\<close>

text \<open>
  Every key in use lies below its counter; and a later store extends an earlier one
  when no counter went down and every record of the earlier one is still under its
  key (a book possibly with another status, an offer possibly with another
  availability: its other nine fields are compared).
\<close>

definition keys_below :: "Database \<Rightarrow> bool" where
  "keys_below D = ((\<forall>k e. books D k = Some e \<longrightarrow> k < next_book_id D)
                   \<and> (\<forall>k e. purchases D k = Some e \<longrightarrow> k < next_purchase_id D))"

definition extends :: "Database \<Rightarrow> Database \<Rightarrow> bool" where
  "extends D D' =
     (next_book_id D \<le> next_book_id D' \<and> next_purchase_id D \<le> next_purchase_id D'
      \<and> (\<forall>k e. books D k = Some e \<longrightarrow>
            (\<exists>e'. books D' k = Some e' \<and> b_data e' = b_data e \<and> b_label e' = b_label e))
      \<and> (\<forall>k e. purchases D k = Some e \<longrightarrow> purchases D' k = Some e))"

definition m_keys_below :: "BookMarketplace \<Rightarrow> bool" where
  "m_keys_below s = ((\<forall>k e. book_offers (m_db s) k = Some e \<longrightarrow> k < next_offer_id s)
                     \<and> (\<forall>k e. m_purchases (m_db s) k = Some e \<longrightarrow> k < m_next_purchase_id s))"

definition m_extends :: "BookMarketplace \<Rightarrow> BookMarketplace \<Rightarrow> bool" where
  "m_extends s s' =
     (next_offer_id s \<le> next_offer_id s' \<and> m_next_purchase_id s \<le> m_next_purchase_id s'
      \<and> (\<forall>k ofr. book_offers (m_db s) k = Some ofr \<longrightarrow>
            (\<exists>ofr'. book_offers (m_db s') k = Some ofr'
                   \<and> ofr'\<lparr>available := True\<rparr> = ofr\<lparr>available := True\<rparr>))
      \<and> (\<forall>k pu. m_purchases (m_db s) k = Some pu \<longrightarrow> m_purchases (m_db s') k = Some pu))"

section \<open>Properties of the label algebra and of the labelled cell\<close>

lemma str_nat_digit: "n < 10 \<Longrightarrow> str_nat n = [digit_char n]"
  by (simp add: str_nat.simps)

text \<open>
  C4. \<open>flows_to\<close> is exactly the stated order in both algebras: on decentralized
  labels \<open>S\<close> flows to \<open>T\<close> iff the owners of \<open>T\<close> are a subset of the owners of
  \<open>S\<close> and the readers of \<open>S\<close> are a subset of the readers of \<open>T\<close>; on linear
  levels \<open>can_flow s t\<close> iff \<open>s \<le> t\<close>.
\<close>

theorem flows_to_is_stated_order:
  "flows_to S T = (owners T \<subseteq> owners S \<and> readers S \<subseteq> readers T)
   \<and> can_flow s t = (s \<le> t)"
  by (simp add: flows_to_def can_flow_def)

theorem flows_to_is_stated_order_witness:
  "flows_to \<lparr>owners = {Principal 3 ''BookStore''},
             readers = {Principal 3 ''BookStore''}\<rparr>
            \<lparr>owners = {}, readers = {Principal 3 ''BookStore'', Principal 0 ''Marketplace''}\<rparr>
   \<and> \<not> flows_to \<lparr>owners = {}, readers = {Principal 3 ''BookStore'', Principal 0 ''Marketplace''}\<rparr>
                \<lparr>owners = {Principal 3 ''BookStore''}, readers = {Principal 3 ''BookStore''}\<rparr>
   \<and> can_flow PUBLIC PLATFORM \<and> \<not> can_flow PLATFORM PUBLIC"
  using flows_to_is_stated_order
          [of "\<lparr>owners = {Principal 3 ''BookStore''}, readers = {Principal 3 ''BookStore''}\<rparr>"
              "\<lparr>owners = {}, readers = {Principal 3 ''BookStore'', Principal 0 ''Marketplace''}\<rparr>"
              PUBLIC PLATFORM]
  by (simp add: flows_to_def can_flow_def PUBLIC_def PLATFORM_def)

text \<open>
  C1. No read-up: \<open>get_value\<close> under a context level \<open>C\<close> returns the stored value
  iff the level of the cell is at most \<open>C\<close>, and raises a \<open>SecurityException\<close>
  otherwise; in both outcomes the cell, its value and its level are what they were.
\<close>

theorem get_value_no_read_up:
  "(fst (get_value cell C) = Inr (cell_value cell)) = (security_level cell \<le> C)
   \<and> (\<exists>m. fst (get_value cell C) = Inl (SecurityException m)) = (\<not> security_level cell \<le> C)
   \<and> snd (get_value cell C) = cell
   \<and> cell_value (snd (get_value cell C)) = cell_value cell
   \<and> security_level (snd (get_value cell C)) = security_level cell"
  by (simp add: get_value_def can_flow_def)

theorem get_value_no_read_up_witness:
  "fst (get_value \<lparr>cell_value = ''address'', security_level = PLATFORM\<rparr> PUBLIC)
     = Inl (SecurityException ''Security violation: Cannot access level 3 data in context 0'')
   \<and> fst (get_value \<lparr>cell_value = ''address'', security_level = PLATFORM\<rparr> PLATFORM) = Inr ''address''
   \<and> snd (get_value \<lparr>cell_value = ''address'', security_level = PLATFORM\<rparr> PUBLIC)
     = \<lparr>cell_value = ''address'', security_level = PLATFORM\<rparr>"
  using get_value_no_read_up [of "\<lparr>cell_value = ''address'', security_level = PLATFORM\<rparr>" PUBLIC]
  by (simp add: get_value_def can_flow_def PLATFORM_def PUBLIC_def str_int_def str_nat_digit digit_char_def)

text \<open>
  C6. Write contract and frame: \<open>set_value\<close> with value \<open>v\<close>, source level \<open>s\<close> and
  context level \<open>c\<close> succeeds iff both \<open>s\<close> and \<open>c\<close> flow to the level of the cell;
  then the cell holds \<open>v\<close>; otherwise a \<open>SecurityException\<close> is raised and the cell is
  exactly as it was. The level of the cell is the same after every call.
\<close>

theorem set_value_write_contract:
  "(fst (set_value cell v s c) = Inr ())
     = (can_flow s (security_level cell) \<and> can_flow c (security_level cell))
   \<and> (can_flow s (security_level cell) \<and> can_flow c (security_level cell)
        \<longrightarrow> snd (set_value cell v s c) = cell\<lparr>cell_value := v\<rparr>)
   \<and> (\<not> (can_flow s (security_level cell) \<and> can_flow c (security_level cell))
        \<longrightarrow> (\<exists>m. fst (set_value cell v s c) = Inl (SecurityException m))
            \<and> snd (set_value cell v s c) = cell)
   \<and> security_level (snd (set_value cell v s c)) = security_level cell"
  by (simp add: set_value_def)

theorem set_value_write_contract_witness:
  "can_flow PLATFORM PLATFORM
   \<and> set_value \<lparr>cell_value = True, security_level = PLATFORM\<rparr> False PLATFORM PLATFORM
       = (Inr (), \<lparr>cell_value = False, security_level = PLATFORM\<rparr>)
   \<and> \<not> can_flow PLATFORM PUBLIC
   \<and> snd (set_value \<lparr>cell_value = True, security_level = PUBLIC\<rparr> False PUBLIC PLATFORM)
       = \<lparr>cell_value = True, security_level = PUBLIC\<rparr>
   \<and> fst (set_value \<lparr>cell_value = True, security_level = PUBLIC\<rparr> False PUBLIC PLATFORM)
       = Inl (SecurityException
               ''Security violation: Cannot assign level 0 to level 0 in context 3'')"
  using set_value_write_contract [of "\<lparr>cell_value = True, security_level = PLATFORM\<rparr>" False PLATFORM PLATFORM]
        set_value_write_contract [of "\<lparr>cell_value = True, security_level = PUBLIC\<rparr>" False PUBLIC PLATFORM]
  by (simp add: set_value_def can_flow_def PLATFORM_def PUBLIC_def str_int_def str_nat_digit digit_char_def)

text \<open>
  C5. Label combination: \<open>join\<close> intersects the owners and unites the readers, so its
  readers contain the readers of both arguments and equal their intersection only when
  the two reader sets are the same; \<open>meet\<close> unites the owners and intersects the
  readers.
\<close>

theorem join_meet_components:
  "owners (join a b) = owners a \<inter> owners b
   \<and> readers (join a b) = readers a \<union> readers b
   \<and> readers a \<subseteq> readers (join a b)
   \<and> readers b \<subseteq> readers (join a b)
   \<and> (readers (join a b) = readers a \<inter> readers b) = (readers a = readers b)
   \<and> owners (meet a b) = owners a \<union> owners b
   \<and> readers (meet a b) = readers a \<inter> readers b"
  by (auto simp add: join_def meet_def SecurityLabel_init_def)

theorem join_meet_components_witness:
  "join \<lparr>owners = {Principal 1 ''Alice''}, readers = {Principal 1 ''Alice'', Principal 0 ''Marketplace''}\<rparr>
        \<lparr>owners = {Principal 3 ''BookStore''}, readers = {Principal 3 ''BookStore'', Principal 0 ''Marketplace''}\<rparr>
     = \<lparr>owners = {},
        readers = {Principal 1 ''Alice'', Principal 0 ''Marketplace'', Principal 3 ''BookStore''}\<rparr>
   \<and> meet \<lparr>owners = {Principal 1 ''Alice''}, readers = {Principal 1 ''Alice'', Principal 0 ''Marketplace''}\<rparr>
          \<lparr>owners = {Principal 3 ''BookStore''}, readers = {Principal 3 ''BookStore'', Principal 0 ''Marketplace''}\<rparr>
     = \<lparr>owners = {Principal 1 ''Alice'', Principal 3 ''BookStore''},
        readers = {Principal 0 ''Marketplace''}\<rparr>"
  using join_meet_components
          [of "\<lparr>owners = {Principal 1 ''Alice''}, readers = {Principal 1 ''Alice'', Principal 0 ''Marketplace''}\<rparr>"
              "\<lparr>owners = {Principal 3 ''BookStore''}, readers = {Principal 3 ''BookStore'', Principal 0 ''Marketplace''}\<rparr>"]
  by (auto simp add: join_def meet_def SecurityLabel_init_def)

text \<open>
  C7. Lattice laws on decentralized labels: \<open>flows_to\<close> is reflexive and transitive;
  \<open>join\<close> and \<open>meet\<close> are commutative, associative and idempotent; \<open>join a b\<close> is
  an upper bound of \<open>a\<close> and \<open>b\<close>, and \<open>meet a b\<close> a lower bound.
\<close>

theorem label_lattice_laws:
  "flows_to a a
   \<and> (flows_to a b \<longrightarrow> flows_to b c \<longrightarrow> flows_to a c)
   \<and> join a b = join b a
   \<and> join (join a b) c = join a (join b c)
   \<and> join a a = a
   \<and> meet a b = meet b a
   \<and> meet (meet a b) c = meet a (meet b c)
   \<and> meet a a = a
   \<and> flows_to a (join a b) \<and> flows_to b (join a b)
   \<and> flows_to (meet a b) a \<and> flows_to (meet a b) b"
  by (auto simp add: flows_to_def join_def meet_def SecurityLabel_init_def)

theorem label_lattice_laws_witness:
  "flows_to \<lparr>owners = {Principal 1 ''Alice'', Principal 0 ''Marketplace''}, readers = {Principal 1 ''Alice''}\<rparr>
            \<lparr>owners = {Principal 1 ''Alice''}, readers = {Principal 1 ''Alice'', Principal 0 ''Marketplace''}\<rparr>
   \<and> flows_to \<lparr>owners = {Principal 1 ''Alice''}, readers = {Principal 1 ''Alice'', Principal 0 ''Marketplace''}\<rparr>
              \<lparr>owners = {}, readers = {Principal 1 ''Alice'', Principal 0 ''Marketplace'', Principal 3 ''BookStore''}\<rparr>
   \<and> flows_to \<lparr>owners = {Principal 1 ''Alice'', Principal 0 ''Marketplace''}, readers = {Principal 1 ''Alice''}\<rparr>
              \<lparr>owners = {}, readers = {Principal 1 ''Alice'', Principal 0 ''Marketplace'', Principal 3 ''BookStore''}\<rparr>"
  using label_lattice_laws
          [of "\<lparr>owners = {Principal 1 ''Alice'', Principal 0 ''Marketplace''}, readers = {Principal 1 ''Alice''}\<rparr>"
              "\<lparr>owners = {Principal 1 ''Alice''}, readers = {Principal 1 ''Alice'', Principal 0 ''Marketplace''}\<rparr>"
              "\<lparr>owners = {}, readers = {Principal 1 ''Alice'', Principal 0 ''Marketplace'', Principal 3 ''BookStore''}\<rparr>"]
  by (simp add: flows_to_def)

section \<open>Properties of the declassification gate\<close>

text \<open>
  C2. Declassification gate contract: \<open>declassify\<close> of a label \<open>L\<close> by a principal
  \<open>P\<close> with a reader set \<open>R\<close> succeeds iff \<open>P\<close> is one of the owners of \<open>L\<close>; the
  label it returns has the owners of \<open>L\<close> and the readers \<open>R\<close>; otherwise it raises
  the exception that says \<open>P\<close> is not authorized; \<open>L\<close> itself is left as it was.
\<close>

theorem declassify_gate_contract:
  "(\<exists>L'. fst (declassify L P (Some R)) = Inr L') = (P \<in> owners L)
   \<and> fst (declassify L P (Some R)) =
       (if P \<in> owners L then Inr \<lparr>owners = owners L, readers = R\<rparr>
        else Inl (SecurityException (''Principal '' @ name P @ '' not authorized to declassify'')))
   \<and> snd (declassify L P (Some R)) = L"
  by (simp add: declassify_def SecurityLabel_init_def)

theorem declassify_gate_contract_witness:
  "declassify \<lparr>owners = {Principal 1 ''Alice''},
               readers = {Principal 1 ''Alice'', Principal 0 ''Marketplace''}\<rparr>
     (Principal 1 ''Alice'')
     (Some {Principal 1 ''Alice'', Principal 3 ''BookStore'', Principal 0 ''Marketplace''})
   = (Inr \<lparr>owners = {Principal 1 ''Alice''},
           readers = {Principal 1 ''Alice'', Principal 3 ''BookStore'', Principal 0 ''Marketplace''}\<rparr>,
      \<lparr>owners = {Principal 1 ''Alice''},
       readers = {Principal 1 ''Alice'', Principal 0 ''Marketplace''}\<rparr>)"
  using declassify_gate_contract
          [of "\<lparr>owners = {Principal 1 ''Alice''},
                readers = {Principal 1 ''Alice'', Principal 0 ''Marketplace''}\<rparr>"
              "Principal 1 ''Alice''"
              "{Principal 1 ''Alice'', Principal 3 ''BookStore'', Principal 0 ''Marketplace''}"]
  by (simp add: prod_eq_iff)

text \<open>
  C3. The docstring of \<open>declassify\<close> reads "Declassify information if authorized by
  all owners", and the claim asks that a request fail unless the full owner set
  consents. The method takes one principal and tests membership: on a label owned by
  a customer and a vendor together, the request of the customer alone succeeds and
  widens the readers. (With the customer as only owner the request succeeds, and on a
  label owned by the marketplace alone the request of the customer is refused, as the
  claim says.)
\<close>

theorem declassify_one_owner_of_two_suffices:
  "fst (declassify \<lparr>owners = {Principal 1 ''Alice'', Principal 3 ''BookStore''},
                    readers = {Principal 1 ''Alice''}\<rparr>
          (Principal 1 ''Alice'')
          (Some {Principal 1 ''Alice'', Principal 3 ''BookStore'', Principal 0 ''Marketplace''}))
     = Inr \<lparr>owners = {Principal 1 ''Alice'', Principal 3 ''BookStore''},
            readers = {Principal 1 ''Alice'', Principal 3 ''BookStore'', Principal 0 ''Marketplace''}\<rparr>
   \<and> fst (declassify \<lparr>owners = {Principal 1 ''Alice''}, readers = {Principal 1 ''Alice''}\<rparr>
            (Principal 1 ''Alice'')
            (Some {Principal 1 ''Alice'', Principal 3 ''BookStore'', Principal 0 ''Marketplace''}))
     = Inr \<lparr>owners = {Principal 1 ''Alice''},
            readers = {Principal 1 ''Alice'', Principal 3 ''BookStore'', Principal 0 ''Marketplace''}\<rparr>
   \<and> fst (declassify \<lparr>owners = {Principal 0 ''Marketplace''}, readers = {Principal 1 ''Alice''}\<rparr>
            (Principal 1 ''Alice'')
            (Some {Principal 1 ''Alice'', Principal 3 ''BookStore'', Principal 0 ''Marketplace''}))
     = Inl (SecurityException ''Principal Alice not authorized to declassify'')"
  by (simp add: declassify_def SecurityLabel_init_def)

section \<open>The purchase handlers, branch by branch\<close>

lemma getitem_Inr: "(getitem d k = Inr v) = (d k = Some v)"
  by (simp add: getitem_def split: option.splits)

lemma hp_no_customer:
  "customers (db s) c = None \<Longrightarrow>
   handle_purchase first_of s c b p = (Inr (Failure ''Customer not found''), s)"
  by (simp add: handle_purchase_def)

lemma hp_no_book:
  "customers (db s) c = Some ci \<Longrightarrow> books (db s) b = None \<Longrightarrow>
   handle_purchase first_of s c b p = (Inr (Failure ''Book not found''), s)"
  by (simp add: handle_purchase_def)

lemma hp_unavailable:
  "customers (db s) c = Some ci \<Longrightarrow> books (db s) b = Some bi \<Longrightarrow> status bi \<noteq> ''available'' \<Longrightarrow>
   handle_purchase first_of s c b p = (Inr (Failure ''Book is not available''), s)"
  by (simp add: handle_purchase_def)

lemma hp_no_price:
  "customers (db s) c = Some ci \<Longrightarrow> books (db s) b = Some bi \<Longrightarrow> status bi = ''available'' \<Longrightarrow>
   getitem (dicts s (b_data bi)) ''price'' = Inl e \<Longrightarrow>
   handle_purchase first_of s c b p = (Inl e, s)"
  by (simp add: handle_purchase_def)

lemma hp_mismatch:
  "customers (db s) c = Some ci \<Longrightarrow> books (db s) b = Some bi \<Longrightarrow> status bi = ''available'' \<Longrightarrow>
   getitem (dicts s (b_data bi)) ''price'' = Inr q \<Longrightarrow> q \<noteq> p \<Longrightarrow>
   handle_purchase first_of s c b p = (Inr (Failure ''Price does not match''), s)"
  by (simp add: handle_purchase_def)

lemma hp_no_vendor_id:
  "customers (db s) c = Some ci \<Longrightarrow> books (db s) b = Some bi \<Longrightarrow> status bi = ''available'' \<Longrightarrow>
   getitem (dicts s (b_data bi)) ''price'' = Inr p \<Longrightarrow> getitem (dicts s (b_data bi)) ''vendor_id'' = Inl e \<Longrightarrow>
   handle_purchase first_of s c b p = (Inl e, s)"
  by (simp add: handle_purchase_def)

lemma hp_no_vendor:
  "customers (db s) c = Some ci \<Longrightarrow> books (db s) b = Some bi \<Longrightarrow> status bi = ''available'' \<Longrightarrow>
   getitem (dicts s (b_data bi)) ''price'' = Inr p \<Longrightarrow> getitem (dicts s (b_data bi)) ''vendor_id'' = Inr v \<Longrightarrow>
   vendors (db s) v = None \<Longrightarrow>
   handle_purchase first_of s c b p = (Inl (KeyError v), s)"
  by (simp add: handle_purchase_def)

lemma hp_no_owner:
  "customers (db s) c = Some ci \<Longrightarrow> books (db s) b = Some bi \<Longrightarrow> status bi = ''available'' \<Longrightarrow>
   getitem (dicts s (b_data bi)) ''price'' = Inr p \<Longrightarrow> getitem (dicts s (b_data bi)) ''vendor_id'' = Inr v \<Longrightarrow>
   vendors (db s) v = Some vi \<Longrightarrow> owners (c_label ci) = {} \<or> owners (v_label vi) = {} \<Longrightarrow>
   handle_purchase first_of s c b p = (Inl IndexError, s)"
  by (auto simp add: handle_purchase_def)

lemma hp_committed:
  "customers (db s) c = Some ci \<Longrightarrow> books (db s) b = Some bi \<Longrightarrow> status bi = ''available'' \<Longrightarrow>
   getitem (dicts s (b_data bi)) ''price'' = Inr p \<Longrightarrow>
   getitem (dicts s (b_data bi)) ''vendor_id'' = Inr v \<Longrightarrow> vendors (db s) v = Some vi \<Longrightarrow>
   owners (c_label ci) \<noteq> {} \<Longrightarrow> owners (v_label vi) \<noteq> {} \<Longrightarrow>
   db (snd (handle_purchase first_of s c b p))
     = snd (add_purchase
              ((db s)\<lparr>books := (books (db s))(b \<mapsto> bi\<lparr>status := ''sold''\<rparr>)\<rparr>)
              (next_ref s)
              (SecurityLabel_init
                 (Some {first_of (owners (c_label ci)), first_of (owners (v_label vi)), marketplace s})
                 (Some {first_of (owners (c_label ci)), first_of (owners (v_label vi)), marketplace s})))
   \<and> dicts (snd (handle_purchase first_of s c b p))
       = (dicts s)(next_ref s :=
            [''book_id'' \<mapsto> Num b, ''customer_id'' \<mapsto> c, ''vendor_id'' \<mapsto> v,
             ''price'' \<mapsto> p, ''timestamp'' \<mapsto> Str ''timestamp_placeholder''])
   \<and> next_ref (snd (handle_purchase first_of s c b p)) = next_ref s + 1
   \<and> marketplace (snd (handle_purchase first_of s c b p)) = marketplace s
   \<and> (\<forall>r. fst (handle_purchase first_of s c b p) = Inr r \<longrightarrow> success r)"
  by (simp add: handle_purchase_def new_dict_def Let_def del: fun_upd_apply
        split: sum.splits prod.splits)

text \<open>
  Every call of \<open>handle_purchase\<close> either leaves the platform as it was, or has passed
  all four checks and all lookups that precede the first assignment.
\<close>

lemma hp_cases:
  obtains (unchanged) "snd (handle_purchase first_of s c b p) = s"
  | (committed) ci bi v vi where
      "customers (db s) c = Some ci" "books (db s) b = Some bi" "status bi = ''available''"
      "getitem (dicts s (b_data bi)) ''price'' = Inr p" "getitem (dicts s (b_data bi)) ''vendor_id'' = Inr v"
      "vendors (db s) v = Some vi" "owners (c_label ci) \<noteq> {}" "owners (v_label vi) \<noteq> {}"
proof (cases "customers (db s) c")
  case None
  then show ?thesis using unchanged by (simp add: hp_no_customer)
next
  case ci: (Some ci)
  show ?thesis
  proof (cases "books (db s) b")
    case None
    with ci show ?thesis using unchanged by (simp add: hp_no_book)
  next
    case bi: (Some bi)
    show ?thesis
    proof (cases "status bi = ''available''")
      case False
      with ci bi show ?thesis using unchanged by (simp add: hp_unavailable)
    next
      case av: True
      show ?thesis
      proof (cases "getitem (dicts s (b_data bi)) ''price''")
        case (Inl e)
        with ci bi av show ?thesis using unchanged by (simp add: hp_no_price)
      next
        case pr: (Inr q)
        show ?thesis
        proof (cases "q = p")
          case False
          with ci bi av pr show ?thesis using unchanged by (simp add: hp_mismatch)
        next
          case True
          with pr have pr': "getitem (dicts s (b_data bi)) ''price'' = Inr p" by simp
          show ?thesis
          proof (cases "getitem (dicts s (b_data bi)) ''vendor_id''")
            case (Inl e)
            with ci bi av pr' show ?thesis using unchanged by (simp add: hp_no_vendor_id)
          next
            case vid: (Inr v)
            show ?thesis
            proof (cases "vendors (db s) v")
              case None
              with ci bi av pr' vid show ?thesis using unchanged by (simp add: hp_no_vendor)
            next
              case vi: (Some vi)
              show ?thesis
              proof (cases "owners (c_label ci) = {} \<or> owners (v_label vi) = {}")
                case True
                with ci bi av pr' vid vi show ?thesis using unchanged by (simp add: hp_no_owner)
              next
                case False
                with ci bi av pr' vid vi show ?thesis using committed by simp
              qed
            qed
          qed
        qed
      qed
    qed
  qed
qed

lemma handle_purchase_failure:
  assumes "fst (handle_purchase first_of s c b p) = Inr r" and "\<not> success r"
  shows "snd (handle_purchase first_of s c b p) = s"
proof (cases rule: hp_cases [of first_of s c b p])
  case unchanged
  then show ?thesis .
next
  case (committed ci bi v vi)
  then have "success r" using hp_committed [of s c ci b bi p v vi first_of] assms(1) by simp
  with assms(2) show ?thesis by simp
qed

lemma handle_purchase_validated:
  assumes "snd (handle_purchase first_of s c b p) \<noteq> s"
  shows "c \<in> dom (customers (db s))
         \<and> (\<exists>bi. books (db s) b = Some bi \<and> status bi = ''available''
                   \<and> dicts s (b_data bi) ''price'' = Some p)"
proof (cases rule: hp_cases [of first_of s c b p])
  case unchanged
  with assms show ?thesis by simp
next
  case (committed ci bi v vi)
  then show ?thesis by (auto simp add: getitem_Inr)
qed

lemma ph_no_customer:
  "m_customers (m_db s) c = None \<Longrightarrow>
   purchase_handler s c k p = (Inr (Failure ''Customer not found''), s)"
  by (simp add: purchase_handler_def)

lemma ph_absent:
  "m_customers (m_db s) c = Some cu \<Longrightarrow> book_offers (m_db s) k = None \<Longrightarrow>
   purchase_handler s c k p = (Inr (Failure ''Book offer not available''), s)"
  by (simp add: purchase_handler_def)

lemma ph_unavailable:
  "m_customers (m_db s) c = Some cu \<Longrightarrow> book_offers (m_db s) k = Some ofr \<Longrightarrow> \<not> available ofr \<Longrightarrow>
   purchase_handler s c k p = (Inr (Failure ''Book offer not available''), s)"
  by (simp add: purchase_handler_def)

lemma ph_mismatch:
  "m_customers (m_db s) c = Some cu \<Longrightarrow> book_offers (m_db s) k = Some ofr \<Longrightarrow> available ofr \<Longrightarrow>
   o_price ofr \<noteq> p \<Longrightarrow>
   purchase_handler s c k p = (Inr (Failure ''Price does not match''), s)"
  by (simp add: purchase_handler_def)

lemma ph_committed:
  "m_customers (m_db s) c = Some cu \<Longrightarrow> book_offers (m_db s) k = Some ofr \<Longrightarrow> available ofr \<Longrightarrow>
   o_price ofr = p \<Longrightarrow>
   snd (purchase_handler s c k p)
     = s\<lparr>m_db := (m_db s)
             \<lparr>book_offers := (book_offers (m_db s))(k \<mapsto> ofr\<lparr>available := False\<rparr>),
              m_purchases := (m_purchases (m_db s))(m_next_purchase_id s \<mapsto>
                 \<lparr>pu_offer_id = k, pu_customer_id = c,
                  pu_timestamp = ''2025-05-04 12:00:00'', pu_price = p\<rparr>)\<rparr>,
          m_next_purchase_id := m_next_purchase_id s + 1\<rparr>
   \<and> (\<forall>r. fst (purchase_handler s c k p) = Inr r \<longrightarrow> success r)"
  by (simp add: purchase_handler_def Let_def split: sum.splits)

lemma ph_cases:
  obtains (unchanged) "snd (purchase_handler s c k p) = s"
  | (committed) cu ofr where
      "m_customers (m_db s) c = Some cu" "book_offers (m_db s) k = Some ofr"
      "available ofr" "o_price ofr = p"
proof (cases "m_customers (m_db s) c")
  case None
  then show ?thesis using unchanged by (simp add: ph_no_customer)
next
  case cu: (Some cu)
  show ?thesis
  proof (cases "book_offers (m_db s) k")
    case None
    with cu show ?thesis using unchanged by (simp add: ph_absent)
  next
    case ofr: (Some ofr)
    show ?thesis
    proof (cases "available ofr \<and> o_price ofr = p")
      case True
      with cu ofr show ?thesis using committed by simp
    next
      case False
      with cu ofr show ?thesis using unchanged
        by (cases "available ofr") (simp_all add: ph_unavailable ph_mismatch)
    qed
  qed
qed

lemma purchase_handler_failure:
  assumes "fst (purchase_handler s c k p) = Inr r" and "\<not> success r"
  shows "snd (purchase_handler s c k p) = s"
proof (cases rule: ph_cases [of s c k p])
  case unchanged
  then show ?thesis .
next
  case (committed cu ofr)
  then have "success r" using ph_committed [of s c cu k ofr p] assms(1) by simp
  with assms(2) show ?thesis by simp
qed

lemma purchase_handler_validated:
  assumes "snd (purchase_handler s c k p) \<noteq> s"
  shows "c \<in> dom (m_customers (m_db s))
         \<and> (\<exists>ofr. book_offers (m_db s) k = Some ofr \<and> available ofr \<and> o_price ofr = p)"
proof (cases rule: ph_cases [of s c k p])
  case unchanged
  with assms show ?thesis by simp
next
  case (committed cu ofr)
  then show ?thesis by auto
qed

section \<open>Keys and counters of the platform store\<close>

lemma extends_refl: "extends D D"
  by (simp add: extends_def)

lemma extends_trans:
  assumes "extends D1 D2" and "extends D2 D3"
  shows "extends D1 D3"
proof -
  have "next_book_id D1 \<le> next_book_id D3" and "next_purchase_id D1 \<le> next_purchase_id D3"
    using assms by (simp_all add: extends_def)
  moreover have "\<exists>e'. books D3 k = Some e' \<and> b_data e' = b_data e \<and> b_label e' = b_label e"
    if "books D1 k = Some e" for k e
  proof -
    from that assms(1) obtain e2 where "books D2 k = Some e2" "b_data e2 = b_data e" "b_label e2 = b_label e"
      unfolding extends_def by blast
    moreover from this assms(2) obtain e3 where "books D3 k = Some e3" "b_data e3 = b_data e2" "b_label e3 = b_label e2"
      unfolding extends_def by blast
    ultimately show ?thesis by simp
  qed
  moreover have "purchases D3 k = Some e" if "purchases D1 k = Some e" for k e
    using that assms unfolding extends_def by blast
  ultimately show ?thesis unfolding extends_def by blast
qed

lemma add_book_key: "fst (add_book D bd l) = next_book_id D"
  by (simp add: add_book_def Let_def)

lemma add_purchase_key: "fst (add_purchase D pd l) = next_purchase_id D"
  by (simp add: add_purchase_def Let_def)

lemma add_book_counter:
  "next_book_id (snd (add_book D bd l)) = next_book_id D + 1
   \<and> next_purchase_id (snd (add_book D bd l)) = next_purchase_id D"
  by (simp add: add_book_def Let_def)

lemma add_purchase_counter:
  "next_purchase_id (snd (add_purchase D pd l)) = next_purchase_id D + 1
   \<and> next_book_id (snd (add_purchase D pd l)) = next_book_id D"
  by (simp add: add_purchase_def Let_def)

lemma keys_below_fresh:
  "keys_below D \<Longrightarrow> next_book_id D \<notin> dom (books D) \<and> next_purchase_id D \<notin> dom (purchases D)"
  unfolding keys_below_def by force

lemma add_book_extends:
  "keys_below D \<Longrightarrow> keys_below (snd (add_book D bd l)) \<and> extends D (snd (add_book D bd l))"
  by (auto simp add: keys_below_def extends_def add_book_def Let_def)

lemma add_purchase_extends:
  "keys_below D \<Longrightarrow> keys_below (snd (add_purchase D pd l)) \<and> extends D (snd (add_purchase D pd l))"
  by (auto simp add: keys_below_def extends_def add_purchase_def Let_def)

lemma sold_extends:
  "keys_below D \<Longrightarrow> books D b = Some bi \<Longrightarrow>
   keys_below (D\<lparr>books := (books D)(b \<mapsto> bi\<lparr>status := st\<rparr>)\<rparr>)
   \<and> extends D (D\<lparr>books := (books D)(b \<mapsto> bi\<lparr>status := st\<rparr>)\<rparr>)"
  by (auto simp add: keys_below_def extends_def)

lemma ho_db:
  "db (snd (handle_offer first_of s v bd)) =
     (case vendors (db s) v of
        None \<Rightarrow> db s
      | Some vi \<Rightarrow>
          if owners (v_label vi) = {} then db s
          else snd (add_book (db s) bd
                      (SecurityLabel_init (Some {first_of (owners (v_label vi))})
                         (Some {first_of (owners (v_label vi)), marketplace s}))))"
  by (simp add: handle_offer_def Let_def split: option.splits prod.splits)

lemma platform_step_extends:
  assumes "keys_below (db s)"
  shows "keys_below (db (platform_step first_of c s))
         \<and> extends (db s) (db (platform_step first_of c s))"
proof (cases c)
  case (NewDict x)
  with assms show ?thesis by (simp add: new_dict_def extends_refl)
next
  case (AddCustomer x1 x2 x3)
  with assms show ?thesis by (simp add: add_customer_def keys_below_def extends_def)
next
  case (AddVendor x1 x2 x3)
  with assms show ?thesis by (simp add: add_vendor_def keys_below_def extends_def)
next
  case (AddBook bd l)
  with assms show ?thesis by (simp add: add_book_extends)
next
  case (AddPurchase pd l)
  with assms show ?thesis by (simp add: add_purchase_extends)
next
  case (HandleOffer v bd)
  with assms show ?thesis
    by (simp add: ho_db add_book_extends extends_refl split: option.splits)
next
  case hp: (HandlePurchase cu b p)
  show ?thesis
  proof (cases rule: hp_cases [of first_of s cu b p])
    case unchanged
    with hp assms show ?thesis by (simp add: extends_refl)
  next
    case (committed ci bi v vi)
    let ?D = "(db s)\<lparr>books := (books (db s))(b \<mapsto> bi\<lparr>status := ''sold''\<rparr>)\<rparr>"
    from sold_extends [OF assms committed(2), of "''sold''"]
    have 1: "keys_below ?D" and 2: "extends (db s) ?D" by simp_all
    from hp_committed [OF committed, of first_of]
    obtain pd pl where 3: "db (snd (handle_purchase first_of s cu b p)) = snd (add_purchase ?D pd pl)"
      by blast
    from add_purchase_extends [OF 1, of pd pl] 2
    have "keys_below (snd (add_purchase ?D pd pl))" and "extends (db s) (snd (add_purchase ?D pd pl))"
      by (blast intro: extends_trans)+
    with hp 3 show ?thesis by simp
  qed
next
  case (SetMarketingOptIn cu b)
  with assms show ?thesis
    by (simp add: set_marketing_opt_in_def keys_below_def extends_def split: option.splits)
qed

lemma platform_run_extends:
  "keys_below (db s) \<Longrightarrow>
   keys_below (db (platform_run first_of cs s)) \<and> extends (db s) (db (platform_run first_of cs s))"
proof (induction cs arbitrary: s)
  case Nil
  then show ?case by (simp add: extends_refl)
next
  case (Cons c cs)
  from platform_step_extends [OF Cons.prems, of first_of c]
  have 1: "keys_below (db (platform_step first_of c s))"
    and 2: "extends (db s) (db (platform_step first_of c s))" by simp_all
  from Cons.IH [OF 1] 2 show ?case by (auto intro: extends_trans)
qed

lemma platform_init_keys_below: "keys_below (db BookMarketPlatform_init)"
  by (simp add: BookMarketPlatform_init_def Database_init_def add_customer_def add_vendor_def
        new_dict_def keys_below_def Let_def)

lemma platform_reachable_keys_below:
  "keys_below (db (platform_run first_of cs BookMarketPlatform_init))"
  using platform_run_extends [OF platform_init_keys_below] by simp

section \<open>Keys and counters of the plain marketplace\<close>

lemma m_extends_refl: "m_extends s s"
  by (simp add: m_extends_def)

lemma m_extends_trans:
  assumes "m_extends s1 s2" and "m_extends s2 s3"
  shows "m_extends s1 s3"
proof -
  have "next_offer_id s1 \<le> next_offer_id s3" and "m_next_purchase_id s1 \<le> m_next_purchase_id s3"
    using assms by (simp_all add: m_extends_def)
  moreover have "\<exists>o3. book_offers (m_db s3) k = Some o3
                      \<and> o3\<lparr>available := True\<rparr> = ofr\<lparr>available := True\<rparr>"
    if "book_offers (m_db s1) k = Some ofr" for k ofr
  proof -
    from that assms(1) obtain o2 where o2: "book_offers (m_db s2) k = Some o2"
      "o2\<lparr>available := True\<rparr> = ofr\<lparr>available := True\<rparr>"
      unfolding m_extends_def by blast
    from o2(1) assms(2) obtain o3 where o3: "book_offers (m_db s3) k = Some o3"
      "o3\<lparr>available := True\<rparr> = o2\<lparr>available := True\<rparr>"
      unfolding m_extends_def by blast
    from o2(2) o3 show ?thesis by simp
  qed
  moreover have "m_purchases (m_db s3) k = Some pu" if "m_purchases (m_db s1) k = Some pu" for k pu
    using that assms unfolding m_extends_def by blast
  ultimately show ?thesis unfolding m_extends_def by blast
qed

lemma oh_no_vendor:
  "v \<notin> dom (m_vendors (m_db s)) \<Longrightarrow>
   offer_handler s v bi = (Inr (Failure ''Vendor not found''), s)"
  by (simp add: offer_handler_def)

lemma oh_key:
  "fst (offer_handler s v bi) = Inr (OfferCreated k) \<Longrightarrow>
   k = next_offer_id s \<and> next_offer_id (snd (offer_handler s v bi)) = next_offer_id s + 1
   \<and> book_offers (m_db (snd (offer_handler s v bi))) k \<noteq> None"
  by (simp add: offer_handler_def Let_def split: sum.splits if_splits)

lemma oh_counters:
  "next_offer_id s \<le> next_offer_id (snd (offer_handler s v bi))
   \<and> m_next_purchase_id (snd (offer_handler s v bi)) = m_next_purchase_id s
   \<and> m_purchases (m_db (snd (offer_handler s v bi))) = m_purchases (m_db s)"
  by (simp add: offer_handler_def Let_def split: sum.splits)

lemma oh_offers:
  "book_offers (m_db (snd (offer_handler s v bi))) k = Some ofr \<Longrightarrow>
   book_offers (m_db s) k = Some ofr
   \<or> (k = next_offer_id s \<and> next_offer_id (snd (offer_handler s v bi)) = next_offer_id s + 1)"
  by (simp add: offer_handler_def Let_def split: sum.splits if_splits)

lemma oh_offers_kept:
  "k \<noteq> next_offer_id s \<Longrightarrow>
   book_offers (m_db (snd (offer_handler s v bi))) k = book_offers (m_db s) k"
  by (simp add: offer_handler_def Let_def split: sum.splits)

lemma oh_extends:
  assumes "m_keys_below s"
  shows "m_keys_below (snd (offer_handler s v bi)) \<and> m_extends s (snd (offer_handler s v bi))"
proof -
  let ?s' = "snd (offer_handler s v bi)"
  have lt: "k < next_offer_id s" if "book_offers (m_db s) k = Some ofr" for k ofr
    using that assms unfolding m_keys_below_def by blast
  have "k < next_offer_id ?s'" if "book_offers (m_db ?s') k = Some ofr" for k ofr
    using oh_offers [OF that] lt oh_counters [of s v bi] by fastforce
  moreover have "k < m_next_purchase_id ?s'" if "m_purchases (m_db ?s') k = Some pu" for k pu
    using that assms oh_counters [of s v bi] unfolding m_keys_below_def by simp
  ultimately have 1: "m_keys_below ?s'" unfolding m_keys_below_def by blast
  have "\<exists>ofr'. book_offers (m_db ?s') k = Some ofr'
                \<and> ofr'\<lparr>available := True\<rparr> = ofr\<lparr>available := True\<rparr>"
    if "book_offers (m_db s) k = Some ofr" for k ofr
  proof -
    from lt [OF that] have "k \<noteq> next_offer_id s" by simp
    from oh_offers_kept [OF this, of v bi] that show ?thesis by simp
  qed
  then have "m_extends s ?s'" using oh_counters [of s v bi] unfolding m_extends_def by simp
  with 1 show ?thesis by simp
qed

lemma ph_extends:
  assumes "m_keys_below s"
  shows "m_keys_below (snd (purchase_handler s c k p)) \<and> m_extends s (snd (purchase_handler s c k p))"
proof (cases rule: ph_cases [of s c k p])
  case unchanged
  with assms show ?thesis by (simp add: m_extends_refl)
next
  case (committed cu ofr)
  from ph_committed [OF committed]
  have "snd (purchase_handler s c k p)
     = s\<lparr>m_db := (m_db s)
             \<lparr>book_offers := (book_offers (m_db s))(k \<mapsto> ofr\<lparr>available := False\<rparr>),
              m_purchases := (m_purchases (m_db s))(m_next_purchase_id s \<mapsto>
                 \<lparr>pu_offer_id = k, pu_customer_id = c,
                  pu_timestamp = ''2025-05-04 12:00:00'', pu_price = p\<rparr>)\<rparr>,
          m_next_purchase_id := m_next_purchase_id s + 1\<rparr>" by simp
  with assms committed(2) show ?thesis
    by (auto simp add: m_keys_below_def m_extends_def)
qed

lemma marketplace_step_extends:
  assumes "m_keys_below s"
  shows "m_keys_below (marketplace_step c s) \<and> m_extends s (marketplace_step c s)"
proof (cases c)
  case (SetCustomers x)
  with assms show ?thesis by (simp add: m_keys_below_def m_extends_def)
next
  case (SetVendors x)
  with assms show ?thesis by (simp add: m_keys_below_def m_extends_def)
next
  case (OfferHandler v bi)
  with assms show ?thesis by (simp add: oh_extends)
next
  case (PurchaseHandler cu k p)
  with assms show ?thesis by (simp add: ph_extends)
qed

lemma marketplace_run_extends:
  "m_keys_below s \<Longrightarrow> m_keys_below (marketplace_run cs s) \<and> m_extends s (marketplace_run cs s)"
proof (induction cs arbitrary: s)
  case Nil
  then show ?case by (simp add: m_extends_refl)
next
  case (Cons c cs)
  from marketplace_step_extends [OF Cons.prems, of c]
  have 1: "m_keys_below (marketplace_step c s)" and 2: "m_extends s (marketplace_step c s)"
    by simp_all
  from Cons.IH [OF 1] 2 show ?case by (auto intro: m_extends_trans)
qed

lemma marketplace_reachable_keys_below: "m_keys_below (marketplace_run cs BookMarketplace_init)"
proof -
  have "m_keys_below BookMarketplace_init"
    by (simp add: m_keys_below_def BookMarketplace_init_def)
  from marketplace_run_extends [OF this] show ?thesis by simp
qed

section \<open>The example stores, evaluated\<close>

lemmas platform_eval =
  platform_offered_def platform_sold_def BookMarketPlatform_init_def Database_init_def
  add_customer_def add_vendor_def add_book_def add_purchase_def new_dict_def handle_offer_def
  handle_purchase_def getitem_def example_book_def SecurityLabel_init_def Let_def

lemmas marketplace_eval =
  marketplace_offered_def marketplace_sold_def BookMarketplace_init_def offer_handler_def
  purchase_handler_def getitem_def example_book_info_def example_customers_def
  example_vendors_def Let_def

lemma platform_offered_alice:
  "customers (db platform_offered) (Str ''alice'') \<noteq> None
   \<and> customers (db BookMarketPlatform_init) (Str ''alice'') \<noteq> None"
  by (simp add: platform_eval)

lemma platform_offered_book:
  "books (db platform_offered) 1
     = Some \<lparr>b_data = 4,
             b_label = \<lparr>owners = {Principal 3 ''BookStore''},
                        readers = {Principal 3 ''BookStore'', Principal 0 ''Marketplace''}\<rparr>,
             status = ''available''\<rparr>
   \<and> dicts platform_offered 4 = example_book(''vendor_id'' \<mapsto> Str ''bookstore'')"
  by (simp add: platform_eval)

lemma platform_sold_book:
  "books (db platform_sold) 1
     = Some \<lparr>b_data = 4,
             b_label = \<lparr>owners = {Principal 3 ''BookStore''},
                        readers = {Principal 3 ''BookStore'', Principal 0 ''Marketplace''}\<rparr>,
             status = ''sold''\<rparr>
     \<and> customers (db platform_sold) (Str ''alice'') \<noteq> None"
  by (simp add: platform_eval)

lemma platform_init_no_book: "books (db BookMarketPlatform_init) 1 = None"
  by (simp add: platform_eval)

lemma marketplace_offered_offer:
  "m_customers (m_db marketplace_offered) (Num 1) \<noteq> None
   \<and> (\<exists>ofr. book_offers (m_db marketplace_offered) 1 = Some ofr \<and> available ofr
             \<and> o_price ofr = Num 30)
   \<and> book_offers (m_db marketplace_offered) 2 = None"
  by (simp add: marketplace_eval)

lemma marketplace_sold_offer:
  "m_customers (m_db marketplace_sold) (Num 1) \<noteq> None
   \<and> (\<exists>ofr. book_offers (m_db marketplace_sold) 1 = Some ofr \<and> \<not> available ofr)"
  by (simp add: marketplace_eval)

text \<open>
  One dict offered twice: both books hold the same object, and the second offer has
  overwritten the \<^verbatim>\<open>'vendor_id'\<close> the first one wrote.
\<close>

lemma handle_offer_same_dict_twice:
  "b_data (the (books (db (platform_run the_elem
       [HandleOffer (Str ''rarebooks'') 4] platform_offered)) 1)) = 4
   \<and> b_data (the (books (db (platform_run the_elem
       [HandleOffer (Str ''rarebooks'') 4] platform_offered)) 2)) = 4
   \<and> dicts platform_offered 4 ''vendor_id'' = Some (Str ''bookstore'')
   \<and> dicts (platform_run the_elem [HandleOffer (Str ''rarebooks'') 4] platform_offered) 4
         ''vendor_id'' = Some (Str ''rarebooks'')"
  by (simp add: platform_eval)

section \<open>Atomicity of a failed purchase\<close>

text \<open>
  C10. A call of a purchase handler that returns an unsuccessful result leaves the
  whole store as it was: books and offers, purchases and counters. A call that changes
  the store has passed every check first: the customer is registered, the book or
  offer is there and available, and the price is the one asked. This holds for
  \<open>handle_purchase\<close> of the platform and for \<open>purchase_handler\<close> of the plain
  marketplace.
\<close>

theorem purchase_failure_atomic:
  "(fst (handle_purchase first_of s c b p) = Inr r \<longrightarrow> \<not> success r \<longrightarrow>
      snd (handle_purchase first_of s c b p) = s)
   \<and> (snd (handle_purchase first_of s c b p) \<noteq> s \<longrightarrow>
        c \<in> dom (customers (db s))
        \<and> (\<exists>bi. books (db s) b = Some bi \<and> status bi = ''available''
                  \<and> dicts s (b_data bi) ''price'' = Some p))
   \<and> (fst (purchase_handler m c' k q) = Inr r' \<longrightarrow> \<not> success r' \<longrightarrow>
        snd (purchase_handler m c' k q) = m)
   \<and> (snd (purchase_handler m c' k q) \<noteq> m \<longrightarrow>
        c' \<in> dom (m_customers (m_db m))
        \<and> (\<exists>ofr. book_offers (m_db m) k = Some ofr \<and> available ofr \<and> o_price ofr = q))"
  using handle_purchase_failure [of first_of s c b p r]
        handle_purchase_validated [of first_of s c b p]
        purchase_handler_failure [of m c' k q r']
        purchase_handler_validated [of m c' k q]
  by blast

theorem purchase_failure_atomic_witness:
  "fst (handle_purchase the_elem platform_offered (Str ''alice'') 1 (Num 25))
     = Inr (Failure ''Price does not match'')
   \<and> snd (handle_purchase the_elem platform_offered (Str ''alice'') 1 (Num 25)) = platform_offered
   \<and> snd (handle_purchase the_elem platform_offered (Str ''alice'') 1 (Num 30)) \<noteq> platform_offered
   \<and> fst (purchase_handler marketplace_sold (Num 2) 1 (Num 30))
     = Inr (Failure ''Book offer not available'')
   \<and> snd (purchase_handler marketplace_sold (Num 2) 1 (Num 30)) = marketplace_sold
   \<and> snd (purchase_handler marketplace_offered (Num 1) 1 (Num 30)) \<noteq> marketplace_offered
   \<and> Str ''alice'' \<in> dom (customers (db platform_offered))
   \<and> Num 1 \<in> dom (m_customers (m_db marketplace_offered))"
proof -
  have 1: "fst (handle_purchase the_elem platform_offered (Str ''alice'') 1 (Num 25))
             = Inr (Failure ''Price does not match'')"
    by (simp add: platform_eval)
  have 2: "fst (purchase_handler marketplace_sold (Num 2) 1 (Num 30))
             = Inr (Failure ''Book offer not available'')"
    by (simp add: marketplace_eval)
  have 3: "status (the (books (db (snd (handle_purchase the_elem platform_offered
                                          (Str ''alice'') 1 (Num 30)))) 1)) = ''sold''"
    by (simp add: platform_eval)
  have 4: "status (the (books (db platform_offered) 1)) = ''available''"
    by (simp add: platform_offered_book)
  from 3 4 have 5:
    "snd (handle_purchase the_elem platform_offered (Str ''alice'') 1 (Num 30)) \<noteq> platform_offered"
    by auto
  have 6: "\<not> available (the (book_offers (m_db (snd (purchase_handler marketplace_offered
                                                      (Num 1) 1 (Num 30)))) 1))"
    by (simp add: marketplace_eval)
  have 7: "available (the (book_offers (m_db marketplace_offered) 1))"
    by (simp add: marketplace_eval)
  from 6 7 have 8:
    "snd (purchase_handler marketplace_offered (Num 1) 1 (Num 30)) \<noteq> marketplace_offered"
    by auto
  from purchase_failure_atomic
         [of the_elem platform_offered "Str ''alice''" 1 "Num 25" "Failure ''Price does not match''"
             marketplace_sold "Num 2" 1 "Num 30" "Failure ''Book offer not available''"]
       purchase_failure_atomic
         [of the_elem platform_offered "Str ''alice''" 1 "Num 30" _
             marketplace_offered "Num 1" 1 "Num 30"]
       1 2 5 8
  show ?thesis by simp
qed

section \<open>What a failed purchase tells about the key\<close>

text \<open>
  C8, as stated, asks that a purchase fail in the same way whether the key is absent
  or its record is there but no longer available. On the platform it does not: for the
  registered customer \<^verbatim>\<open>'alice'\<close>, book 1 is absent from the initial platform and
  \<open>handle_purchase\<close> answers \<^verbatim>\<open>'Book not found'\<close>; after the book was offered and
  sold, the same call answers \<^verbatim>\<open>'Book is not available'\<close>.
\<close>

theorem handle_purchase_tells_absent_from_sold:
  "books (db BookMarketPlatform_init) 1 = None
   \<and> books (db platform_sold) 1 \<noteq> None
   \<and> fst (handle_purchase the_elem BookMarketPlatform_init (Str ''alice'') 1 (Num 30))
       = Inr (Failure ''Book not found'')
   \<and> fst (handle_purchase the_elem platform_sold (Str ''alice'') 1 (Num 30))
       = Inr (Failure ''Book is not available'')
   \<and> fst (handle_purchase the_elem BookMarketPlatform_init (Str ''alice'') 1 (Num 30))
       \<noteq> fst (handle_purchase the_elem platform_sold (Str ''alice'') 1 (Num 30))"
proof -
  from platform_offered_alice obtain ci
    where ci: "customers (db BookMarketPlatform_init) (Str ''alice'') = Some ci" by blast
  from platform_sold_book obtain ci' bi
    where ci': "customers (db platform_sold) (Str ''alice'') = Some ci'"
      and bi: "books (db platform_sold) 1 = Some bi" "status bi \<noteq> ''available''"
    by auto
  from hp_no_book [OF ci platform_init_no_book, of the_elem "Num 30"]
       hp_unavailable [OF ci' bi, of the_elem "Num 30"]
       platform_init_no_book bi(1)
  show ?thesis by simp
qed

text \<open>
  C8, amended. In the plain marketplace, \<open>purchase_handler\<close> returns the same failure
  whether the offer key is absent or the offer is there and no longer available, for
  every customer and price: \<^verbatim>\<open>'Customer not found'\<close> for a customer who is not
  registered, \<^verbatim>\<open>'Book offer not available'\<close> otherwise; the store is left as it was,
  and putting an unavailable offer under an absent key changes the result of no
  purchase of that key. On the platform, \<open>handle_purchase\<close> fails in both cases too
  and leaves the platform as it was; for a customer who is not registered it answers
  \<^verbatim>\<open>'Customer not found'\<close> in both, for a registered one \<^verbatim>\<open>'Book not found'\<close> when
  the key is absent and \<^verbatim>\<open>'Book is not available'\<close> when the status of the book is
  not \<^verbatim>\<open>'available'\<close>.
\<close>

theorem purchase_failure_absent_or_unavailable:
  "(book_offers (m_db s) k = None
      \<or> (\<exists>ofr. book_offers (m_db s) k = Some ofr \<and> \<not> available ofr) \<longrightarrow>
      purchase_handler s c k p
        = (Inr (Failure (if m_customers (m_db s) c = None then ''Customer not found''
                         else ''Book offer not available'')), s))
   \<and> (book_offers (m_db s) k = None \<longrightarrow> \<not> available gone \<longrightarrow>
        fst (purchase_handler
               (s\<lparr>m_db := (m_db s)\<lparr>book_offers := (book_offers (m_db s))(k \<mapsto> gone)\<rparr>\<rparr>) c k p)
          = fst (purchase_handler s c k p))
   \<and> (books (db t) b = None \<longrightarrow>
        handle_purchase first_of t c' b q
          = (Inr (Failure (if customers (db t) c' = None then ''Customer not found''
                           else ''Book not found'')), t))
   \<and> (books (db t) b = Some bi \<longrightarrow> status bi \<noteq> ''available'' \<longrightarrow>
        handle_purchase first_of t c' b q
          = (Inr (Failure (if customers (db t) c' = None then ''Customer not found''
                           else ''Book is not available'')), t))"
proof (intro conjI impI)
  assume "book_offers (m_db s) k = None
          \<or> (\<exists>ofr. book_offers (m_db s) k = Some ofr \<and> \<not> available ofr)"
  then show "purchase_handler s c k p
        = (Inr (Failure (if m_customers (m_db s) c = None then ''Customer not found''
                         else ''Book offer not available'')), s)"
    by (cases "m_customers (m_db s) c") (auto simp add: ph_no_customer ph_absent ph_unavailable)
next
  assume "book_offers (m_db s) k = None" and "\<not> available gone"
  then show "fst (purchase_handler
               (s\<lparr>m_db := (m_db s)\<lparr>book_offers := (book_offers (m_db s))(k \<mapsto> gone)\<rparr>\<rparr>) c k p)
          = fst (purchase_handler s c k p)"
    by (cases "m_customers (m_db s) c") (simp_all add: ph_no_customer ph_absent ph_unavailable)
next
  assume "books (db t) b = None"
  then show "handle_purchase first_of t c' b q
          = (Inr (Failure (if customers (db t) c' = None then ''Customer not found''
                           else ''Book not found'')), t)"
    by (cases "customers (db t) c'") (simp_all add: hp_no_customer hp_no_book)
next
  assume "books (db t) b = Some bi" and "status bi \<noteq> ''available''"
  then show "handle_purchase first_of t c' b q
          = (Inr (Failure (if customers (db t) c' = None then ''Customer not found''
                           else ''Book is not available'')), t)"
    by (cases "customers (db t) c'") (simp_all add: hp_no_customer hp_unavailable)
qed

theorem purchase_failure_absent_or_unavailable_witness:
  "purchase_handler (marketplace_run [SetCustomers example_customers] BookMarketplace_init)
       (Num 1) 1 (Num 30)
     = (Inr (Failure ''Book offer not available''),
        marketplace_run [SetCustomers example_customers] BookMarketplace_init)
   \<and> purchase_handler marketplace_sold (Num 1) 1 (Num 30)
     = (Inr (Failure ''Book offer not available''), marketplace_sold)
   \<and> purchase_handler marketplace_sold (Num 7) 1 (Num 30)
     = (Inr (Failure ''Customer not found''), marketplace_sold)
   \<and> handle_purchase the_elem BookMarketPlatform_init (Str ''alice'') 1 (Num 30)
     = (Inr (Failure ''Book not found''), BookMarketPlatform_init)
   \<and> handle_purchase the_elem platform_sold (Str ''alice'') 1 (Num 30)
     = (Inr (Failure ''Book is not available''), platform_sold)"
proof -
  let ?s1 = "marketplace_run [SetCustomers example_customers] BookMarketplace_init"
  have 1: "m_customers (m_db ?s1) (Num 1) \<noteq> None" "book_offers (m_db ?s1) 1 = None"
    by (simp_all add: marketplace_eval)
  from marketplace_sold_offer
  have 2: "m_customers (m_db marketplace_sold) (Num 1) \<noteq> None"
          "\<exists>ofr. book_offers (m_db marketplace_sold) 1 = Some ofr \<and> \<not> available ofr"
    by blast+
  have 3: "m_customers (m_db marketplace_sold) (Num 7) = None"
    by (simp add: marketplace_eval)
  from platform_sold_book obtain bi
    where 4: "customers (db platform_sold) (Str ''alice'') \<noteq> None"
             "books (db platform_sold) 1 = Some bi" "status bi \<noteq> ''available''"
    by auto
  from purchase_failure_absent_or_unavailable
         [of ?s1 1 "Num 1" "Num 30" _ BookMarketPlatform_init 1 the_elem "Str ''alice''" "Num 30"]
       purchase_failure_absent_or_unavailable
         [of marketplace_sold 1 "Num 1" "Num 30" _ platform_sold 1 the_elem "Str ''alice''" "Num 30" bi]
       purchase_failure_absent_or_unavailable [of marketplace_sold 1 "Num 7" "Num 30"]
       1 2 3 4 platform_offered_alice platform_init_no_book
  show ?thesis by simp
qed

section \<open>Fresh keys, monotone counters, keys that keep their record\<close>

lemma ho_key:
  "fst (handle_offer first_of s v bd) = Inr (OfferAccepted msg j) \<Longrightarrow> j = next_book_id (db s)"
  by (simp add: handle_offer_def add_book_def Let_def split: option.splits if_splits)

lemma extends_counters:
  "extends D D' \<Longrightarrow> next_book_id D \<le> next_book_id D' \<and> next_purchase_id D \<le> next_purchase_id D'"
  by (simp add: extends_def)

lemma extends_books:
  "extends D D' \<Longrightarrow> books D k = Some e \<Longrightarrow>
   \<exists>e'. books D' k = Some e' \<and> b_data e' = b_data e \<and> b_label e' = b_label e"
  unfolding extends_def by blast

lemma extends_purchases:
  "extends D D' \<Longrightarrow> purchases D k = Some e \<Longrightarrow> purchases D' k = Some e"
  unfolding extends_def by blast

lemma m_extends_counters:
  "m_extends s s' \<Longrightarrow>
   next_offer_id s \<le> next_offer_id s' \<and> m_next_purchase_id s \<le> m_next_purchase_id s'"
  by (simp add: m_extends_def)

lemma m_extends_offers:
  "m_extends s s' \<Longrightarrow> book_offers (m_db s) k = Some ofr \<Longrightarrow>
   \<exists>ofr'. book_offers (m_db s') k = Some ofr'
          \<and> ofr'\<lparr>available := True\<rparr> = ofr\<lparr>available := True\<rparr>"
  unfolding m_extends_def by blast

text \<open>The platform, in any state \<open>S\<close> its calls can reach.\<close>

lemma platform_keys:
  assumes S: "S = platform_run first_of cs BookMarketPlatform_init"
  shows "fst (add_book (db S) bd l) \<notin> dom (books (db S))"
    and "fst (add_purchase (db S) pd pl) \<notin> dom (purchases (db S))"
    and "fst (handle_offer first_of S v bd) = Inr (OfferAccepted msg j) \<longrightarrow> j \<notin> dom (books (db S))"
    and "fst (add_book (db S) bd l)
           < fst (add_book (db (platform_run first_of cs' (platform_step first_of (AddBook bd l) S))) bd' l')"
    and "fst (add_purchase (db S) pd pl)
           < fst (add_purchase (db (platform_run first_of cs' (platform_step first_of (AddPurchase pd pl) S))) pd' pl')"
    and "next_book_id (db S) < next_book_id (snd (add_book (db S) bd l))"
    and "next_purchase_id (db S) < next_purchase_id (snd (add_purchase (db S) pd pl))"
    and "next_book_id (db S) \<le> next_book_id (db (platform_run first_of cs' S))"
    and "next_purchase_id (db S) \<le> next_purchase_id (db (platform_run first_of cs' S))"
    and "books (db S) k = Some e \<longrightarrow>
           (\<exists>e'. books (db (platform_run first_of cs' S)) k = Some e'
                  \<and> b_data e' = b_data e \<and> b_label e' = b_label e)"
    and "purchases (db S) k = Some pe \<longrightarrow> purchases (db (platform_run first_of cs' S)) k = Some pe"
proof -
  have kb: "keys_below (db S)"
    unfolding S by (rule platform_reachable_keys_below)
  from keys_below_fresh [OF kb]
  show "fst (add_book (db S) bd l) \<notin> dom (books (db S))"
    and "fst (add_purchase (db S) pd pl) \<notin> dom (purchases (db S))"
    by (simp_all add: add_book_key add_purchase_key)
  from keys_below_fresh [OF kb]
  show "fst (handle_offer first_of S v bd) = Inr (OfferAccepted msg j) \<longrightarrow> j \<notin> dom (books (db S))"
    by (auto dest: ho_key)
  have ext: "extends (db T) (db (platform_run first_of cs' T))" if "keys_below (db T)" for T
    using platform_run_extends [OF that] by simp
  have stepkb: "keys_below (db (platform_step first_of c S))" for c
    using platform_step_extends [OF kb] by simp
  from extends_counters [OF ext [OF stepkb [of "AddBook bd l"]]]
  show "fst (add_book (db S) bd l)
          < fst (add_book (db (platform_run first_of cs' (platform_step first_of (AddBook bd l) S))) bd' l')"
    by (simp add: add_book_key add_book_counter)
  from extends_counters [OF ext [OF stepkb [of "AddPurchase pd pl"]]]
  show "fst (add_purchase (db S) pd pl)
          < fst (add_purchase (db (platform_run first_of cs' (platform_step first_of (AddPurchase pd pl) S))) pd' pl')"
    by (simp add: add_purchase_key add_purchase_counter)
  show "next_book_id (db S) < next_book_id (snd (add_book (db S) bd l))"
    and "next_purchase_id (db S) < next_purchase_id (snd (add_purchase (db S) pd pl))"
    by (simp_all add: add_book_counter add_purchase_counter)
  from extends_counters [OF ext [OF kb]]
  show "next_book_id (db S) \<le> next_book_id (db (platform_run first_of cs' S))"
    and "next_purchase_id (db S) \<le> next_purchase_id (db (platform_run first_of cs' S))"
    by simp_all
  from extends_books [OF ext [OF kb]]
  show "books (db S) k = Some e \<longrightarrow>
          (\<exists>e'. books (db (platform_run first_of cs' S)) k = Some e'
                 \<and> b_data e' = b_data e \<and> b_label e' = b_label e)"
    by blast
  from extends_purchases [OF ext [OF kb]]
  show "purchases (db S) k = Some pe \<longrightarrow> purchases (db (platform_run first_of cs' S)) k = Some pe"
    by blast
qed

text \<open>The plain marketplace, in any state \<open>M\<close> its calls can reach.\<close>

lemma marketplace_keys:
  assumes M: "M = marketplace_run ms BookMarketplace_init"
  shows "fst (offer_handler M v bi) = Inr (OfferCreated j) \<longrightarrow>
           j \<notin> dom (book_offers (m_db M))
           \<and> next_offer_id M < next_offer_id (snd (offer_handler M v bi))"
    and "fst (offer_handler M v bi) = Inr (OfferCreated j) \<longrightarrow>
         fst (offer_handler (marketplace_run ms' (snd (offer_handler M v bi))) v' bi')
           = Inr (OfferCreated j') \<longrightarrow> j < j'"
    and "next_offer_id M \<le> next_offer_id (marketplace_run ms' M)"
    and "m_next_purchase_id M \<le> m_next_purchase_id (marketplace_run ms' M)"
    and "book_offers (m_db M) k = Some ofr \<longrightarrow>
           (\<exists>ofr'. book_offers (m_db (marketplace_run ms' M)) k = Some ofr'
                    \<and> ofr'\<lparr>available := True\<rparr> = ofr\<lparr>available := True\<rparr>)"
    and "m_purchases (m_db M) k = Some pu \<longrightarrow> m_purchases (m_db (marketplace_run ms' M)) k = Some pu"
proof -
  have kb: "m_keys_below M"
    unfolding M by (rule marketplace_reachable_keys_below)
  have fresh: "next_offer_id M \<notin> dom (book_offers (m_db M))"
    using kb unfolding m_keys_below_def by force
  show "fst (offer_handler M v bi) = Inr (OfferCreated j) \<longrightarrow>
          j \<notin> dom (book_offers (m_db M))
          \<and> next_offer_id M < next_offer_id (snd (offer_handler M v bi))"
    using fresh oh_key [of M v bi j] by auto
  have ext: "m_extends T (marketplace_run ms' T)" if "m_keys_below T" for T
    using marketplace_run_extends [OF that] by simp
  have kb': "m_keys_below (snd (offer_handler M v bi))"
    using oh_extends [OF kb] by simp
  show "fst (offer_handler M v bi) = Inr (OfferCreated j) \<longrightarrow>
        fst (offer_handler (marketplace_run ms' (snd (offer_handler M v bi))) v' bi')
          = Inr (OfferCreated j') \<longrightarrow> j < j'"
  proof (intro impI)
    assume a: "fst (offer_handler M v bi) = Inr (OfferCreated j)"
      and b: "fst (offer_handler (marketplace_run ms' (snd (offer_handler M v bi))) v' bi')
                = Inr (OfferCreated j')"
    from oh_key [OF a] have "j = next_offer_id M"
      and "next_offer_id (snd (offer_handler M v bi)) = j + 1" by simp_all
    moreover from oh_key [OF b]
    have "j' = next_offer_id (marketplace_run ms' (snd (offer_handler M v bi)))" by simp
    moreover from m_extends_counters [OF ext [OF kb']]
    have "next_offer_id (snd (offer_handler M v bi))
            \<le> next_offer_id (marketplace_run ms' (snd (offer_handler M v bi)))" by simp
    ultimately show "j < j'" by simp
  qed
  from m_extends_counters [OF ext [OF kb]]
  show "next_offer_id M \<le> next_offer_id (marketplace_run ms' M)"
    and "m_next_purchase_id M \<le> m_next_purchase_id (marketplace_run ms' M)"
    by simp_all
  from m_extends_offers [OF ext [OF kb]]
  show "book_offers (m_db M) k = Some ofr \<longrightarrow>
          (\<exists>ofr'. book_offers (m_db (marketplace_run ms' M)) k = Some ofr'
                   \<and> ofr'\<lparr>available := True\<rparr> = ofr\<lparr>available := True\<rparr>)"
    by blast
  from ext [OF kb]
  show "m_purchases (m_db M) k = Some pu \<longrightarrow> m_purchases (m_db (marketplace_run ms' M)) k = Some pu"
    unfolding m_extends_def by blast
qed

text \<open>
  C9. Key freshness and monotonicity, for a platform \<open>S\<close> and a plain marketplace
  \<open>M\<close> in any state their calls can reach from the initial one.
  \<^item> The key \<open>add_book\<close>, \<open>add_purchase\<close>, \<open>handle_offer\<close> or \<open>offer_handler\<close>
    returns is under no record of the store.
  \<^item> It is smaller than the key of any later insert, whatever calls \<open>cs'\<close> or
    \<open>ms'\<close> come between the two: no two inserts of a store return the same key.
  \<^item> An insert raises its counter, and no sequence of calls lowers a counter.
  \<^item> A key that holds a record keeps it through every later sequence of calls: a
    book keeps its data dict, the same object, and its label (a purchase changes its
    status), a purchase keeps its data dict and label, an offer keeps every field but
    \<^verbatim>\<open>"available"\<close>. No call puts another record under the key. What a dict of the
    platform contains is a matter of the heap: \<open>handle_offer\<close> writes
    \<^verbatim>\<open>'vendor_id'\<close> into the dict it is given, also when an earlier book holds that
    same dict (\<open>handle_offer_same_dict_twice\<close>).
\<close>

theorem keys_fresh_and_monotone:
  assumes "S = platform_run first_of cs BookMarketPlatform_init"
    and "M = marketplace_run ms BookMarketplace_init"
  shows
    "fst (add_book (db S) bd l) \<notin> dom (books (db S))
     \<and> fst (add_purchase (db S) pd pl) \<notin> dom (purchases (db S))
     \<and> (fst (handle_offer first_of S v bd) = Inr (OfferAccepted msg j) \<longrightarrow> j \<notin> dom (books (db S)))
     \<and> fst (add_book (db S) bd l)
         < fst (add_book (db (platform_run first_of cs' (platform_step first_of (AddBook bd l) S))) bd' l')
     \<and> fst (add_purchase (db S) pd pl)
         < fst (add_purchase (db (platform_run first_of cs' (platform_step first_of (AddPurchase pd pl) S))) pd' pl')
     \<and> next_book_id (db S) < next_book_id (snd (add_book (db S) bd l))
     \<and> next_purchase_id (db S) < next_purchase_id (snd (add_purchase (db S) pd pl))
     \<and> next_book_id (db S) \<le> next_book_id (db (platform_run first_of cs' S))
     \<and> next_purchase_id (db S) \<le> next_purchase_id (db (platform_run first_of cs' S))
     \<and> (books (db S) k = Some e \<longrightarrow>
          (\<exists>e'. books (db (platform_run first_of cs' S)) k = Some e'
                 \<and> b_data e' = b_data e \<and> b_label e' = b_label e))
     \<and> (purchases (db S) n = Some pe \<longrightarrow> purchases (db (platform_run first_of cs' S)) n = Some pe)
     \<and> (fst (offer_handler M w bi) = Inr (OfferCreated i) \<longrightarrow>
          i \<notin> dom (book_offers (m_db M))
          \<and> next_offer_id M < next_offer_id (snd (offer_handler M w bi)))
     \<and> (fst (offer_handler M w bi) = Inr (OfferCreated i) \<longrightarrow>
        fst (offer_handler (marketplace_run ms' (snd (offer_handler M w bi))) w' bi')
          = Inr (OfferCreated i') \<longrightarrow> i < i')
     \<and> next_offer_id M \<le> next_offer_id (marketplace_run ms' M)
     \<and> m_next_purchase_id M \<le> m_next_purchase_id (marketplace_run ms' M)
     \<and> (book_offers (m_db M) h = Some ofr \<longrightarrow>
          (\<exists>ofr'. book_offers (m_db (marketplace_run ms' M)) h = Some ofr'
                   \<and> ofr'\<lparr>available := True\<rparr> = ofr\<lparr>available := True\<rparr>))
     \<and> (m_purchases (m_db M) g = Some pu \<longrightarrow> m_purchases (m_db (marketplace_run ms' M)) g = Some pu)"
  by (intro conjI platform_keys [OF assms(1)] marketplace_keys [OF assms(2)])

theorem keys_fresh_and_monotone_witness:
  "books (db platform_offered) 1 \<noteq> None
   \<and> (\<exists>e'. books (db platform_sold) 1 = Some e'
           \<and> b_data e' = b_data (the (books (db platform_offered) 1))
           \<and> b_label e' = b_label (the (books (db platform_offered) 1)))
   \<and> fst (add_book (db platform_offered) 4 \<lparr>owners = {}, readers = {}\<rparr>) = 2
   \<and> 2 \<notin> dom (books (db platform_offered))
   \<and> fst (offer_handler marketplace_offered (Num 2) example_book_info) = Inr (OfferCreated 2)
   \<and> 2 \<notin> dom (book_offers (m_db marketplace_offered))
   \<and> book_offers (m_db marketplace_offered) 1 \<noteq> None
   \<and> (\<exists>ofr'. book_offers (m_db marketplace_sold) 1 = Some ofr'
             \<and> ofr'\<lparr>available := True\<rparr>
                 = (the (book_offers (m_db marketplace_offered) 1))\<lparr>available := True\<rparr>)"
proof -
  have S: "platform_offered
             = platform_run the_elem [NewDict example_book, HandleOffer (Str ''bookstore'') 4]
                 BookMarketPlatform_init"
    by (simp add: platform_offered_def)
  have M: "marketplace_offered
             = marketplace_run [SetCustomers example_customers, SetVendors example_vendors,
                                OfferHandler (Num 1) example_book_info] BookMarketplace_init"
    by (simp add: marketplace_offered_def)
  from platform_offered_book obtain e where e: "books (db platform_offered) 1 = Some e" by blast
  from marketplace_offered_offer obtain ofr
    where ofr: "book_offers (m_db marketplace_offered) 1 = Some ofr" by blast
  have 1: "fst (add_book (db platform_offered) 4 \<lparr>owners = {}, readers = {}\<rparr>) = 2"
    by (simp add: platform_eval)
  have 2: "fst (offer_handler marketplace_offered (Num 2) example_book_info) = Inr (OfferCreated 2)"
    by (simp add: marketplace_eval)
  have 3: "platform_run the_elem [HandlePurchase (Str ''alice'') 1 (Num 30)] platform_offered
             = platform_sold"
    by (simp add: platform_sold_def)
  have 4: "marketplace_run [PurchaseHandler (Num 1) 1 (Num 30)] marketplace_offered = marketplace_sold"
    by (simp add: marketplace_sold_def)
  from keys_fresh_and_monotone
         [OF S M, where bd = 4 and l = "\<lparr>owners = {}, readers = {}\<rparr>"
            and cs' = "[HandlePurchase (Str ''alice'') 1 (Num 30)]" and k = 1 and e = e
            and w = "Num 2" and bi = example_book_info and i = 2
            and ms' = "[PurchaseHandler (Num 1) 1 (Num 30)]" and h = 1 and ofr = ofr]
       e ofr 1 2
  show ?thesis unfolding 3 4 by simp
qed

end
